theory Spec2Isabelle
  imports Main "HOL-Library.Sublist"
begin

section \<open>Python values and failures\<close>

text \<open>
  The module \<open>mogreps_utils.py\<close> is embedded function by function. Python strings are
  modelled as \<open>string\<close>, each character read as a code point below 256. An exception is
  a value of \<open>exn\<close>, standing for the exception class together with its subclasses; a
  computation that may raise returns \<open>exn + 'a\<close>, with \<open>Inl\<close> the raised exception.
  \<open>KeyError\<close> covers the cube library's \<open>CoordinateNotFoundError\<close>, which derives from it.
\<close>

datatype exn =
    IndexError
  | AttributeError
  | ValueError
  | KeyError
  | UnboundLocalError
  | OtherError string

text \<open>Sequencing of two computations: the second runs only when the first did not raise.\<close>

fun and_then :: "exn + 'a \<Rightarrow> ('a \<Rightarrow> exn + 'b) \<Rightarrow> exn + 'b" where
  "and_then (Inl e) f = Inl e"
| "and_then (Inr x) f = f x"

text \<open>
  A method call or attribute access on a value that may be Python's \<open>None\<close>:
  on \<open>None\<close> it raises \<open>AttributeError\<close>.
\<close>

fun on_object :: "'a option \<Rightarrow> ('a \<Rightarrow> exn + 'b) \<Rightarrow> exn + 'b" where
  "on_object None f = Inl AttributeError"
| "on_object (Some x) f = f x"

text \<open>\<open>xs[i]\<close> for a Python sequence: a negative index counts from the end.\<close>

definition py_getitem :: "'a list \<Rightarrow> int \<Rightarrow> exn + 'a" where
  "py_getitem xs i =
     (if 0 \<le> i \<and> i < int (length xs) then Inr (xs ! nat i)
      else if i < 0 \<and> - i \<le> int (length xs) then Inr (xs ! (length xs - nat (- i)))
      else Inl IndexError)"

text \<open>\<open>xs.index(x)\<close>: the first position of \<open>x\<close>, \<open>ValueError\<close> when \<open>x\<close> is absent.\<close>

fun py_index :: "'a list \<Rightarrow> 'a \<Rightarrow> exn + nat" where
  "py_index [] x = Inl ValueError"
| "py_index (y # ys) x =
     (if y = x then Inr 0 else and_then (py_index ys x) (\<lambda>i. Inr (Suc i)))"

text \<open>\<open>min(xs)\<close> and \<open>max(xs)\<close> of a sequence: \<open>ValueError\<close> on the empty one.\<close>

fun py_min :: "('v::linorder) list \<Rightarrow> exn + 'v" where
  "py_min [] = Inl ValueError"
| "py_min (x # xs) = Inr (fold min xs x)"

fun py_max :: "('v::linorder) list \<Rightarrow> exn + 'v" where
  "py_max [] = Inl ValueError"
| "py_max (x # xs) = Inr (fold max xs x)"

subsection \<open>\<open>str.split\<close>\<close>

text \<open>
  \<open>s.split(c)\<close> with an explicit one-character separator: every occurrence splits,
  empty pieces are kept, and the result is never empty.
\<close>

fun py_split :: "char \<Rightarrow> string \<Rightarrow> string list" where
  "py_split c [] = [[]]"
| "py_split c (x # xs) =
     (if x = c then [] # py_split c xs
      else (case py_split c xs of
              [] \<Rightarrow> [[x]]
            | s # ss \<Rightarrow> (x # s) # ss))"

subsection \<open>\<open>int(str)\<close>\<close>

text \<open>
  \<open>int(s)\<close> in base 10, as in Python 3: optional surrounding whitespace, an optional
  sign, then decimal digits in which single underscores may separate digits (a piece
  cut at underscores holds none). The whitespace accepted
  around the number is tab, line feed, vertical tab, form feed, carriage return, space,
  and the code points 0x85 and 0xA0. The interpreter's limit on the number of digits is
  not modelled.
\<close>

definition is_space :: "char \<Rightarrow> bool" where
  "is_space c \<longleftrightarrow> of_char c \<in> {9::nat, 10, 11, 12, 13, 32, 133, 160}"

definition is_digit :: "char \<Rightarrow> bool" where
  "is_digit c \<longleftrightarrow> (48::nat) \<le> of_char c \<and> of_char c \<le> (57::nat)"

definition digit_val :: "char \<Rightarrow> nat" where
  "digit_val c = of_char c - 48"

text \<open>The value of a digit string, most significant digit first.\<close>

definition digits_val :: "string \<Rightarrow> nat" where
  "digits_val ds = foldl (\<lambda>a c. 10 * a + digit_val c) 0 ds"

text \<open>
  The digit part: it starts and ends with a digit, holds only digits and underscores,
  and no two underscores are adjacent.
\<close>

fun digit_part_ok :: "bool \<Rightarrow> string \<Rightarrow> bool" where
  "digit_part_ok prev_digit [] = prev_digit"
| "digit_part_ok prev_digit (c # cs) =
     (if is_digit c then digit_part_ok True cs
      else if c = CHR ''_'' then prev_digit \<and> digit_part_ok False cs
      else False)"

definition py_int :: "string \<Rightarrow> exn + int" where
  "py_int s =
     (let s1 = dropWhile is_space s;
          neg = (case s1 of c # _ \<Rightarrow> c = CHR ''-'' | [] \<Rightarrow> False);
          s2 = (case s1 of c # r \<Rightarrow> (if c = CHR ''+'' \<or> c = CHR ''-'' then r else s1) | [] \<Rightarrow> []);
          s3 = rev (dropWhile is_space (rev s2))
      in if digit_part_ok False s3
         then (let v = int (digits_val (filter is_digit s3)) in Inr (if neg then - v else v))
         else Inl ValueError)"

subsection \<open>\<open>'{:0wd}'.format(n)\<close>\<close>

text \<open>The decimal digits of a natural number, without padding.\<close>

fun nat_digits :: "nat \<Rightarrow> string" where
  "nat_digits n =
     (if n < 10 then [char_of (48 + n)]
      else nat_digits (n div 10) @ [char_of (48 + n mod 10)])"

declare nat_digits.simps [simp del]

text \<open>
  The format specification \<open>0wd\<close>: sign-aware zero padding to a minimum field width of
  \<open>w\<close>. A minus sign counts toward the width, and a number that needs more than \<open>w\<close>
  characters is not truncated.
\<close>

definition format_0wd :: "nat \<Rightarrow> int \<Rightarrow> string" where
  "format_0wd w n =
     (let sgn = (if n < 0 then ''-'' else []);
          ds = nat_digits (nat \<bar>n\<bar>)
      in sgn @ replicate (w - length sgn - length ds) CHR ''0'' @ ds)"

section \<open>The filename parser\<close>

text \<open>
  Lines 30 and 31 of \<open>get_info\<close>: the name is split at underscores, and the last piece
  is replaced by its part before the first dot.
\<close>

definition get_info_segs :: "string \<Rightarrow> string list" where
  "get_info_segs fname =
     (let segs = py_split CHR ''_'' fname
      in segs[length segs - 1 := hd (py_split CHR ''.'' (last segs))])"

text \<open>
  Line 32: \<open>segs[-4]\<close> is read first and raises \<open>IndexError\<close> when there are fewer than
  four pieces; with four or more, \<open>segs[-3:]\<close> holds exactly \<open>segs[-3]\<close>, \<open>segs[-2]\<close> and
  \<open>segs[-1]\<close>, which are converted in that order, the first one that is not a number
  raising \<open>ValueError\<close>. The four-element list that Python returns is the tuple
  (date, run hour, member, lead time).
\<close>

definition get_info :: "string \<Rightarrow> exn + (string \<times> int \<times> int \<times> int)" where
  "get_info fname =
     (let segs = get_info_segs fname
      in and_then (py_getitem segs (- 4)) (\<lambda>date.
         and_then (py_getitem segs (- 3)) (\<lambda>s1. and_then (py_int s1) (\<lambda>hour.
         and_then (py_getitem segs (- 2)) (\<lambda>s2. and_then (py_int s2) (\<lambda>member.
         and_then (py_getitem segs (- 1)) (\<lambda>s3. and_then (py_int s3) (\<lambda>lead.
         Inr (date, hour, member, lead)))))))))"

text \<open>Line 104 of \<open>get_uk_global_pairs\<close>: the name of the global file expected for a regional one.\<close>

definition g_fname :: "string \<times> int \<times> int \<times> int \<Rightarrow> string" where
  "g_fname info =
     (case info of (date, hour, member, lead) \<Rightarrow>
        ''prods_op_mogreps-g_'' @ date @ ''_'' @ format_0wd 2 (hour - 3) @ ''_'' @
        format_0wd 2 member @ ''_'' @ format_0wd 3 (lead + 3) @ ''.nc'')"

section \<open>The cube library\<close>

text \<open>
  Cubes, coordinates and their operations belong to the external library \<open>iris\<close>. The
  operations the module calls are taken as given, as the fields of a record; each one
  that can raise returns \<open>exn + _\<close>, and \<open>cube.extract\<close>, which returns \<open>None\<close> when no
  part of the cube matches, returns an option. Coordinate values (\<open>'v\<close>) are ordered
  values; floating-point rounding and NaN are outside the model.

  \<^item> \<open>iris_load path\<close> is \<open>iris.load(path)\<close>;
  \<^item> \<open>cube_name c\<close> is \<open>c.name()\<close>, \<open>cube_coords c\<close> is \<open>c.coords()\<close>;
  \<^item> \<open>coord_name d\<close> is \<open>d.name()\<close>, \<open>coord_points d\<close> is \<open>d.points\<close>;
  \<^item> \<open>cube_coord c n\<close> is \<open>c.coord(n)\<close>;
  \<^item> \<open>cube_extract c n v\<close> is \<open>c.extract(iris.Constraint(**{n: v}))\<close>;
  \<^item> \<open>cube_remove_coord c n\<close> is the cube after \<open>c.remove_coord(n)\<close>;
  \<^item> \<open>cube_intersection c n lo hi\<close> is \<open>c.intersection(**{n: (lo, hi)})\<close>;
  \<^item> \<open>grid_unrotate uk g\<close> is the body of \<open>unrotate\<close> (lines 67 to 82) for a regional
    cube that is not \<open>None\<close>: it consists of numerical calls into \<open>numpy\<close> and \<open>iris\<close>
    only and is not interpreted further.
\<close>

record ('cube, 'coord, 'v) iris =
  iris_load :: "string \<Rightarrow> exn + 'cube list"
  cube_name :: "'cube \<Rightarrow> string"
  cube_coords :: "'cube \<Rightarrow> 'coord list"
  coord_name :: "'coord \<Rightarrow> string"
  coord_points :: "'coord \<Rightarrow> 'v list"
  cube_coord :: "'cube \<Rightarrow> string \<Rightarrow> exn + 'coord"
  cube_extract :: "'cube \<Rightarrow> string \<Rightarrow> 'v \<Rightarrow> exn + 'cube option"
  cube_remove_coord :: "'cube \<Rightarrow> string \<Rightarrow> exn + 'cube"
  cube_intersection :: "'cube \<Rightarrow> string \<Rightarrow> 'v \<Rightarrow> 'v \<Rightarrow> exn + 'cube"
  grid_unrotate :: "'cube \<Rightarrow> 'cube option \<Rightarrow> exn + 'cube"

section \<open>The level selector\<close>

text \<open>
  \<open>re.match(lit + '.*', s)\<close> for a literal \<open>lit\<close>: the match is anchored at the start of
  \<open>s\<close>, and \<open>.*\<close> runs up to the first line feed, which \<open>.\<close> does not match. The result
  is \<open>match.group(0)\<close>, or \<open>None\<close> when \<open>s\<close> does not start with \<open>lit\<close>.
\<close>

definition re_match_prefix :: "string \<Rightarrow> string \<Rightarrow> string option" where
  "re_match_prefix lit s =
     (if prefix lit s
      then Some (lit @ takeWhile (\<lambda>c. c \<noteq> CHR 0x0A) (drop (length lit) s))
      else None)"

text \<open>
  The loop of lines 43 to 47 (and 51 to 55): every coordinate whose name matches sets
  \<open>name\<close> and looks the coordinate of that name up in the cube; a lookup that raises
  ends the loop. The accumulator is \<open>None\<close> while \<open>name\<close> and \<open>vert_coord\<close> are unbound.
\<close>

fun vert_coord_loop ::
  "('cube, 'coord, 'v) iris \<Rightarrow> 'cube \<Rightarrow> string \<Rightarrow> 'coord list \<Rightarrow>
     (string \<times> 'coord) option \<Rightarrow> exn + (string \<times> 'coord) option" where
  "vert_coord_loop lib cube lit [] acc = Inr acc"
| "vert_coord_loop lib cube lit (d # ds) acc =
     (case re_match_prefix lit (coord_name lib d) of
        None \<Rightarrow> vert_coord_loop lib cube lit ds acc
      | Some name \<Rightarrow>
          and_then (cube_coord lib cube name) (\<lambda>vert_coord.
            vert_coord_loop lib cube lit ds (Some (name, vert_coord))))"

text \<open>The test \<open>any([re.match(lit + '.*', d.name()) for d in cube.coords()])\<close>.\<close>

definition any_match :: "('cube, 'coord, 'v) iris \<Rightarrow> 'cube \<Rightarrow> string \<Rightarrow> bool" where
  "any_match lib cube lit =
     list_ex (\<lambda>d. re_match_prefix lit (coord_name lib d) \<noteq> None) (cube_coords lib cube)"

text \<open>
  One branch of \<open>get_ground_level\<close>: the loop, then the extraction of the level whose
  value is \<open>pick\<close> (\<open>min\<close> or \<open>max\<close>) of the points of \<open>vert_coord\<close>.
\<close>

definition extract_level ::
  "('cube, 'coord, 'v) iris \<Rightarrow> 'cube \<Rightarrow> string \<Rightarrow> ('v list \<Rightarrow> exn + 'v) \<Rightarrow>
     exn + ('cube option \<times> string option)" where
  "extract_level lib cube lit pick =
     and_then (vert_coord_loop lib cube lit (cube_coords lib cube) None) (\<lambda>r.
       case r of
         None \<Rightarrow> Inl UnboundLocalError
       | Some (name, vert_coord) \<Rightarrow>
           and_then (pick (coord_points lib vert_coord)) (\<lambda>v.
           and_then (cube_extract lib cube name v) (\<lambda>ground_level.
           Inr (ground_level, Some name))))"

text \<open>
  \<open>get_ground_level\<close>. The argument may be \<open>None\<close> (the driver passes the result of an
  extraction); \<open>cube.coords()\<close> then raises \<open>AttributeError\<close>.
\<close>

definition get_ground_level ::
  "('cube, 'coord, 'v::linorder) iris \<Rightarrow> 'cube option \<Rightarrow>
     exn + ('cube option \<times> string option)" where
  "get_ground_level lib cube_arg =
     on_object cube_arg (\<lambda>cube.
       if any_match lib cube ''height'' then extract_level lib cube ''height'' py_min
       else if any_match lib cube ''pressure'' then extract_level lib cube ''pressure'' py_max
       else Inr (Some cube, None))"

section \<open>The grid aligner\<close>

text \<open>\<open>unrotate\<close>: its first step reads a coordinate of \<open>uk_cube\<close>.\<close>

definition unrotate ::
  "('cube, 'coord, 'v) iris \<Rightarrow> 'cube option \<Rightarrow> 'cube option \<Rightarrow> exn + 'cube" where
  "unrotate lib uk_cube g_cube = on_object uk_cube (\<lambda>uk. grid_unrotate lib uk g_cube)"

text \<open>\<open>get_uk_from_global\<close>: the four bounds are read in order, then the two intersections.\<close>

definition get_uk_from_global ::
  "('cube, 'coord, 'v) iris \<Rightarrow> 'cube option \<Rightarrow> 'cube \<Rightarrow> exn + 'cube" where
  "get_uk_from_global lib g_cube uk_cube =
     and_then (cube_coord lib uk_cube ''latitude'') (\<lambda>c1.
     and_then (py_getitem (coord_points lib c1) 0) (\<lambda>minlat.
     and_then (cube_coord lib uk_cube ''latitude'') (\<lambda>c2.
     and_then (py_getitem (coord_points lib c2) (- 1)) (\<lambda>maxlat.
     and_then (cube_coord lib uk_cube ''longitude'') (\<lambda>c3.
     and_then (py_getitem (coord_points lib c3) 0) (\<lambda>minlon.
     and_then (cube_coord lib uk_cube ''longitude'') (\<lambda>c4.
     and_then (py_getitem (coord_points lib c4) (- 1)) (\<lambda>maxlon.
     on_object g_cube (\<lambda>g.
     and_then (cube_intersection lib g ''latitude'' minlat maxlat) (\<lambda>g1.
     cube_intersection lib g1 ''longitude'' minlon maxlon))))))))))"

section \<open>The pairing driver\<close>

text \<open>
  Lines 108 to 114: both files are loaded, the parameter is looked up in the regional
  and then in the global collection, and both cubes are narrowed to the last time of
  the regional cube. Line 114 reads the time coordinate of the narrowed regional cube,
  which is \<open>None\<close> when the extraction of line 113 matched nothing.
\<close>

definition load_and_narrow ::
  "('cube, 'coord, 'v) iris \<Rightarrow> string \<Rightarrow> string \<Rightarrow> string \<Rightarrow>
     exn + ('cube \<times> 'cube option)" where
  "load_and_narrow lib param g_file uk_file =
     and_then (iris_load lib g_file) (\<lambda>g_cubes.
     and_then (iris_load lib uk_file) (\<lambda>uk_cubes.
     and_then (py_index (map (cube_name lib) uk_cubes) param) (\<lambda>i.
     and_then (py_index (map (cube_name lib) g_cubes) param) (\<lambda>j.
     and_then (cube_coord lib (uk_cubes ! i) ''time'') (\<lambda>t1.
     and_then (py_getitem (coord_points lib t1) (- 1)) (\<lambda>v1.
     and_then (cube_extract lib (uk_cubes ! i) ''time'' v1) (\<lambda>uk_cube.
     on_object uk_cube (\<lambda>uk.
     and_then (cube_coord lib uk ''time'') (\<lambda>t2.
     and_then (py_getitem (coord_points lib t2) (- 1)) (\<lambda>v2.
     and_then (cube_extract lib (g_cubes ! j) ''time'' v2) (\<lambda>g_cube.
     Inr (uk, g_cube))))))))))))"

text \<open>Lines 118 and 120: \<open>if h: cube.remove_coord(h)\<close>; the empty string is false as well.\<close>

definition drop_vertical ::
  "('cube, 'coord, 'v) iris \<Rightarrow> 'cube option \<Rightarrow> string option \<Rightarrow> exn + 'cube option" where
  "drop_vertical lib cube h =
     (case h of
        None \<Rightarrow> Inr cube
      | Some name \<Rightarrow>
          if name = [] then Inr cube
          else on_object cube (\<lambda>c.
                 and_then (cube_remove_coord lib c name) (\<lambda>c'. Inr (Some c'))))"

text \<open>Lines 117 to 123: level selection on both cubes, reprojection and cropping.\<close>

definition ground_and_align ::
  "('cube, 'coord, 'v::linorder) iris \<Rightarrow> 'cube \<Rightarrow> 'cube option \<Rightarrow> exn + ('cube \<times> 'cube)" where
  "ground_and_align lib uk_cube g_cube =
     and_then (get_ground_level lib (Some uk_cube)) (\<lambda>(uk1, uk_h).
     and_then (drop_vertical lib uk1 uk_h) (\<lambda>uk2.
     and_then (get_ground_level lib g_cube) (\<lambda>(g1, g_h).
     and_then (drop_vertical lib g1 g_h) (\<lambda>g2.
     and_then (unrotate lib uk2 g2) (\<lambda>uk_unrotate.
     and_then (get_uk_from_global lib g2 uk_unrotate) (\<lambda>g_cube_uk.
     Inr (uk_unrotate, g_cube_uk)))))))"

text \<open>
  The guarded block, lines 108 to 123, up to the two \<open>append\<close>s: what it prints (the time
  coordinate of line 115, once the narrowing has passed) and the pair it computes or
  the exception it raises.
\<close>

definition pair_body ::
  "('cube, 'coord, 'v::linorder) iris \<Rightarrow> string \<Rightarrow> string \<Rightarrow> string \<Rightarrow>
     'coord list \<times> (exn + ('cube \<times> 'cube))" where
  "pair_body lib param g_file uk_file =
     (case load_and_narrow lib param g_file uk_file of
        Inl e \<Rightarrow> ([], Inl e)
      | Inr (uk_cube, g_cube) \<Rightarrow>
          (case cube_coord lib uk_cube ''time'' of
             Inl e \<Rightarrow> ([], Inl e)
           | Inr t \<Rightarrow> ([t], ground_and_align lib uk_cube g_cube)))"

text \<open>The clause \<open>except (IndexError, AttributeError)\<close>.\<close>

definition caught :: "exn \<Rightarrow> bool" where
  "caught e \<longleftrightarrow> e = IndexError \<or> e = AttributeError"

text \<open>The variables of the loop: the two output lists, and what has been printed.\<close>

record ('cube, 'coord) pairs_state =
  uks :: "'cube list"
  gs :: "'cube list"
  printed :: "'coord list"

text \<open>
  The loop of lines 101 to 128 over the regional file names. The result is the printed
  output together with the returned pair of lists or the exception that left the
  function; \<open>get_info\<close> is called outside the guarded block.
\<close>

fun pairs_loop ::
  "('cube, 'coord, 'v::linorder) iris \<Rightarrow> string \<Rightarrow> string list \<Rightarrow> string \<Rightarrow> string \<Rightarrow>
     string list \<Rightarrow> ('cube, 'coord) pairs_state \<Rightarrow>
     'coord list \<times> (exn + ('cube list \<times> 'cube list))" where
  "pairs_loop lib param g_files uk_path g_path [] st = (printed st, Inr (uks st, gs st))"
| "pairs_loop lib param g_files uk_path g_path (fname # rest) st =
     (case get_info fname of
        Inl e \<Rightarrow> (printed st, Inl e)
      | Inr info \<Rightarrow>
          if g_fname info \<in> set g_files then
            (case pair_body lib param (g_path @ g_fname info) (uk_path @ fname) of
               (out, Inr (uk_unrotate, g_cube_uk)) \<Rightarrow>
                 pairs_loop lib param g_files uk_path g_path rest
                   \<lparr>uks = uks st @ [uk_unrotate], gs = gs st @ [g_cube_uk],
                    printed = printed st @ out\<rparr>
             | (out, Inl e) \<Rightarrow>
                 if caught e
                 then pairs_loop lib param g_files uk_path g_path rest
                        (st\<lparr>printed := printed st @ out\<rparr>)
                 else (printed st @ out, Inl e))
          else pairs_loop lib param g_files uk_path g_path rest st)"

definition get_uk_global_pairs ::
  "('cube, 'coord, 'v::linorder) iris \<Rightarrow> string \<Rightarrow> string list \<Rightarrow> string list \<Rightarrow>
     string \<Rightarrow> string \<Rightarrow> 'coord list \<times> (exn + ('cube list \<times> 'cube list))" where
  "get_uk_global_pairs lib param uk_files g_files uk_path g_path =
     pairs_loop lib param g_files uk_path g_path uk_files \<lparr>uks = [], gs = [], printed = []\<rparr>"

section \<open>Notions used in the statements\<close>

text \<open>A piece that \<open>int\<close> accepts.\<close>

definition int_parseable :: "string \<Rightarrow> bool" where
  "int_parseable s = (case py_int s of Inl _ \<Rightarrow> False | Inr _ \<Rightarrow> True)"

text \<open>
  A field that shows the number \<open>n\<close> with exactly \<open>w\<close> decimal digits, padded with zeros
  on the left.
\<close>

definition zero_padded :: "nat \<Rightarrow> int \<Rightarrow> string \<Rightarrow> bool" where
  "zero_padded w n s \<longleftrightarrow> length s = w \<and> list_all is_digit s \<and> int (digits_val s) = n"

text \<open>
  The coordinates of a cube whose names start with \<open>lit\<close>, in the order in which
  \<open>cube.coords()\<close> lists them.
\<close>

definition matching_coords :: "('cube, 'coord, 'v) iris \<Rightarrow> 'cube \<Rightarrow> string \<Rightarrow> 'coord list" where
  "matching_coords lib cube lit =
     filter (\<lambda>d. prefix lit (coord_name lib d)) (cube_coords lib cube)"

text \<open>
  The names of those coordinates identify them: each name is a single line, and looking
  it up in the cube gives the coordinate back.
\<close>

definition names_identify :: "('cube, 'coord, 'v) iris \<Rightarrow> 'cube \<Rightarrow> string \<Rightarrow> bool" where
  "names_identify lib cube lit =
     list_all (\<lambda>d. CHR 0x0A \<notin> set (coord_name lib d) \<and>
                   cube_coord lib cube (coord_name lib d) = Inr d)
       (matching_coords lib cube lit)"

text \<open>
  The output entry that one regional file name contributes: the pair computed by the
  guarded block when the expected global file is listed and the block completes.
\<close>

definition file_pair ::
  "('cube, 'coord, 'v::linorder) iris \<Rightarrow> string \<Rightarrow> string list \<Rightarrow> string \<Rightarrow> string \<Rightarrow>
     string \<Rightarrow> ('cube \<times> 'cube) option" where
  "file_pair lib param g_files uk_path g_path fname =
     (case get_info fname of
        Inl e \<Rightarrow> None
      | Inr info \<Rightarrow>
          if g_fname info \<in> set g_files then
            (case snd (pair_body lib param (g_path @ g_fname info) (uk_path @ fname)) of
               Inl e \<Rightarrow> None
             | Inr p \<Rightarrow> Some p)
          else None)"

text \<open>
  Both files load and the parameter is missing from the regional or from the global
  collection: the case in which \<open>index\<close> raises in line 110 or 111.
\<close>

definition param_absent ::
  "('cube, 'coord, 'v) iris \<Rightarrow> string \<Rightarrow> string \<Rightarrow> string \<Rightarrow> bool" where
  "param_absent lib param g_file uk_file =
     (case iris_load lib g_file of
        Inl e \<Rightarrow> False
      | Inr g_cubes \<Rightarrow>
          (case iris_load lib uk_file of
             Inl e \<Rightarrow> False
           | Inr uk_cubes \<Rightarrow>
               param \<notin> set (map (cube_name lib) uk_cubes) \<or>
               param \<notin> set (map (cube_name lib) g_cubes)))"

section \<open>A small cube library for concrete runs\<close>

text \<open>
  To run the functions on concrete data, a small implementation of the library
  operations: a cube is its name and its coordinates, a coordinate is its name and its
  integer points, and files are an association list from paths to cube lists. A lookup
  fails unless exactly one coordinate bears the name; an extraction keeps the one
  requested point and returns \<open>None\<close> when the cube has no such point.
\<close>

type_synonym sample_coord = "string \<times> int list"

datatype sample_cube = SampleCube (sc_name: string) (sc_coords: "sample_coord list")

definition sample_coord_of :: "sample_cube \<Rightarrow> string \<Rightarrow> exn + sample_coord" where
  "sample_coord_of c n =
     (case filter (\<lambda>d. fst d = n) (sc_coords c) of [d] \<Rightarrow> Inr d | _ \<Rightarrow> Inl KeyError)"

definition sample_extract :: "sample_cube \<Rightarrow> string \<Rightarrow> int \<Rightarrow> exn + sample_cube option" where
  "sample_extract c n v =
     (case sample_coord_of c n of
        Inl e \<Rightarrow> Inr None
      | Inr d \<Rightarrow>
          if v \<in> set (snd d)
          then Inr (Some (SampleCube (sc_name c)
                 (map (\<lambda>d'. if fst d' = n then (n, [v]) else d') (sc_coords c))))
          else Inr None)"

definition sample_remove_coord :: "sample_cube \<Rightarrow> string \<Rightarrow> exn + sample_cube" where
  "sample_remove_coord c n =
     (if n \<in> set (map fst (sc_coords c))
      then Inr (SampleCube (sc_name c) (filter (\<lambda>d. fst d \<noteq> n) (sc_coords c)))
      else Inl KeyError)"

definition sample_intersection :: "sample_cube \<Rightarrow> string \<Rightarrow> int \<Rightarrow> int \<Rightarrow> exn + sample_cube" where
  "sample_intersection c n lo hi =
     and_then (sample_coord_of c n) (\<lambda>d.
       Inr (SampleCube (sc_name c)
         (map (\<lambda>d'. if fst d' = n then (n, filter (\<lambda>x. lo \<le> x \<and> x \<le> hi) (snd d')) else d')
            (sc_coords c))))"

definition sample_unrotate :: "sample_cube \<Rightarrow> sample_cube option \<Rightarrow> exn + sample_cube" where
  "sample_unrotate uk g =
     and_then (sample_coord_of uk ''grid_latitude'') (\<lambda>glat.
     and_then (sample_coord_of uk ''grid_longitude'') (\<lambda>glon.
     on_object g (\<lambda>g'.
       Inr (SampleCube (sc_name uk)
         (map (\<lambda>d. if fst d = ''grid_latitude'' then (''latitude'', snd d)
                   else if fst d = ''grid_longitude'' then (''longitude'', snd d)
                   else d)
            (sc_coords uk))))))"

definition sample_iris ::
  "(string \<times> sample_cube list) list \<Rightarrow> (sample_cube, sample_coord, int) iris" where
  "sample_iris files =
     \<lparr>iris_load = (\<lambda>p. case map_of files p of
                         None \<Rightarrow> Inl (OtherError ''OSError'')
                       | Some cs \<Rightarrow> Inr cs),
      cube_name = sc_name,
      cube_coords = sc_coords,
      coord_name = fst,
      coord_points = snd,
      cube_coord = sample_coord_of,
      cube_extract = sample_extract,
      cube_remove_coord = sample_remove_coord,
      cube_intersection = sample_intersection,
      grid_unrotate = sample_unrotate\<rparr>"

text \<open>Sample cubes: a regional one on a rotated grid, with given times, and a global one.\<close>

definition uk_sample :: "string \<Rightarrow> int list \<Rightarrow> sample_cube" where
  "uk_sample nm ts =
     SampleCube nm
       [(''time'', ts), (''height'', [50, 10, 20]),
        (''grid_latitude'', [3, 4]), (''grid_longitude'', [5, 6]), (''forecast_period'', [3])]"

definition g_sample :: "string \<Rightarrow> sample_cube" where
  "g_sample nm =
     SampleCube nm
       [(''time'', [2, 5]), (''pressure'', [850, 1000, 500]),
        (''latitude'', [0, 3, 4, 9]), (''longitude'', [1, 5, 6, 8]), (''forecast_period'', [6])]"

text \<open>A cube with a height and a pressure coordinate, and one with two height coordinates.\<close>

definition levels_sample :: sample_cube where
  "levels_sample =
     SampleCube ''t'' [(''time'', [1]), (''height'', [50, 10, 20]), (''pressure'', [850, 1000])]"

definition two_heights_sample :: sample_cube where
  "two_heights_sample =
     SampleCube ''t''
       [(''height'', [5, 3, 9]), (''pressure'', [1, 2]), (''height_above_ground'', [7, 4])]"

text \<open>A cube without a vertical coordinate.\<close>

definition surface_sample :: sample_cube where
  "surface_sample = SampleCube ''t'' [(''time'', [1, 2]), (''latitude'', [3, 4])]"

text \<open>
  Sample files. The regional files of run hours 06 and 12 have global counterparts that
  hold their last time; the global file for run hour 09 is not listed; the global cube
  for run hour 18 lacks the regional time; the global file for run hour 21 is listed
  but cannot be loaded.
\<close>

definition uk_name :: "string \<Rightarrow> string" where
  "uk_name hh = ''prods_op_mogreps-uk_20160107_'' @ hh @ ''_00_003.nc''"

definition g_name :: "string \<Rightarrow> string" where
  "g_name hh = ''prods_op_mogreps-g_20160107_'' @ hh @ ''_00_006.nc''"

definition sample_files :: "(string \<times> sample_cube list) list" where
  "sample_files =
     [(''g/'' @ g_name ''03'', [g_sample ''p'', g_sample ''t'']),
      (''u/'' @ uk_name ''06'', [uk_sample ''t'' [1, 2]]),
      (''u/'' @ uk_name ''09'', [uk_sample ''t'' [1, 2]]),
      (''g/'' @ g_name ''09'', [g_sample ''t'']),
      (''u/'' @ uk_name ''12'', [uk_sample ''t'' [4, 5]]),
      (''g/'' @ g_name ''15'', [g_sample ''t'']),
      (''u/'' @ uk_name ''18'', [uk_sample ''t'' [7, 8]]),
      (''u/'' @ uk_name ''21'', [uk_sample ''t'' [1, 2]])]"

definition sample_g_files :: "string list" where
  "sample_g_files = [g_name ''03'', g_name ''09'', g_name ''15'', g_name ''18'']"

text \<open>The same library for regional cubes without a rotated pole: \<open>unrotate\<close> fails in line 71.\<close>

definition sample_iris_unrotated ::
  "(string \<times> sample_cube list) list \<Rightarrow> (sample_cube, sample_coord, int) iris" where
  "sample_iris_unrotated files =
     (sample_iris files)\<lparr>grid_unrotate := (\<lambda>uk g. Inl AttributeError)\<rparr>"

text \<open>The aligned cubes that a sample pair with last regional time \<open>t\<close> yields.\<close>

definition paired_uk :: "int \<Rightarrow> sample_cube" where
  "paired_uk t =
     SampleCube ''t''
       [(''time'', [t]), (''latitude'', [3, 4]), (''longitude'', [5, 6]),
        (''forecast_period'', [3])]"

definition paired_g :: "int \<Rightarrow> sample_cube" where
  "paired_g t =
     SampleCube ''t''
       [(''time'', [t]), (''latitude'', [3, 4]), (''longitude'', [5, 6]),
        (''forecast_period'', [6])]"

section \<open>Facts about splitting, parsing and formatting\<close>

lemma py_split_nonempty: "py_split c s \<noteq> []"
  by (induction s) (auto split: list.splits)

lemma py_split_no_sep: "c \<notin> set s \<Longrightarrow> py_split c s = [s]"
  by (induction s) auto

lemma py_split_append: "c \<notin> set a \<Longrightarrow> py_split c (a @ c # b) = a # py_split c b"
  by (induction a) (auto split: list.splits)

lemma py_split_pieces: "p \<in> set (py_split c s) \<Longrightarrow> c \<notin> set p"
proof (induction s arbitrary: p)
  case Nil
  then show ?case by simp
next
  case (Cons x xs)
  show ?case
  proof (cases "x = c")
    case True
    with Cons show ?thesis by auto
  next
    case False
    obtain q qs where q: "py_split c xs = q # qs"
      using py_split_nonempty [of c xs] by (cases "py_split c xs") auto
    with False Cons.prems have "p = x # q \<or> p \<in> set qs" by simp
    then show ?thesis
      using Cons.IH [of q] Cons.IH [of p] q False by auto
  qed
qed

lemma length_get_info_segs: "length (get_info_segs fname) = length (py_split CHR ''_'' fname)"
  by (simp add: get_info_segs_def Let_def)

lemma py_int_cases: "py_int s = Inl ValueError \<or> (\<exists>n. py_int s = Inr n)"
  by (simp add: py_int_def Let_def)

lemma int_parseable_iff: "int_parseable s \<longleftrightarrow> (\<exists>n. py_int s = Inr n)"
  by (auto simp: int_parseable_def split: sum.splits)

lemma not_int_parseable: "\<not> int_parseable s \<Longrightarrow> py_int s = Inl ValueError"
  using py_int_cases [of s] by (auto simp: int_parseable_iff)

lemma digit_not_space: "is_digit c \<Longrightarrow> \<not> is_space c"
  by (auto simp: is_digit_def is_space_def)

lemma digit_not_sign: "is_digit c \<Longrightarrow> c \<noteq> CHR ''-'' \<and> c \<noteq> CHR ''+'' \<and> c \<noteq> CHR ''_'' \<and> c \<noteq> CHR ''.''"
  by (auto simp: is_digit_def)

lemma is_digit_char_of: "(n::nat) < 10 \<Longrightarrow> is_digit (char_of (48 + n))"
  by (simp add: is_digit_def)

lemma digit_val_char_of: "(n::nat) < 10 \<Longrightarrow> digit_val (char_of (48 + n)) = n"
  by (simp add: digit_val_def)

lemma nat_digits_all_digits: "list_all is_digit (nat_digits n)"
  by (induction n rule: nat_digits.induct) (subst nat_digits.simps, simp add: is_digit_char_of)

lemma nat_digits_nonempty: "nat_digits n \<noteq> []"
  by (subst nat_digits.simps) simp

lemma digits_val_snoc: "digits_val (ds @ [c]) = 10 * digits_val ds + digit_val c"
  by (simp add: digits_val_def)

lemma digits_val_nat_digits: "digits_val (nat_digits n) = n"
proof (induction n rule: nat_digits.induct)
  case (1 n)
  show ?case
  proof (cases "n < 10")
    case True
    then show ?thesis
      by (subst nat_digits.simps) (simp add: digits_val_def digit_val_char_of)
  next
    case False
    with 1 have "digits_val (nat_digits (n div 10)) = n div 10" by simp
    with False show ?thesis
      by (subst nat_digits.simps) (simp add: digits_val_snoc digit_val_char_of)
  qed
qed

lemma digits_val_zeros: "digits_val (replicate k CHR ''0'' @ ds) = digits_val ds"
proof -
  have "foldl (\<lambda>a c. 10 * a + digit_val c) 0 (replicate k CHR ''0'') = 0"
    by (induction k) (simp_all add: digit_val_def)
  then show ?thesis by (simp add: digits_val_def)
qed

lemma digit_part_ok_digits: "list_all is_digit ds \<Longrightarrow> digit_part_ok b ds \<longleftrightarrow> b \<or> ds \<noteq> []"
  by (induction ds arbitrary: b) auto

lemma py_int_digits:
  assumes "list_all is_digit ds" and "ds \<noteq> []"
  shows "py_int ds = Inr (int (digits_val ds))"
    and "py_int (CHR ''-'' # ds) = Inr (- int (digits_val ds))"
proof -
  from assms have h: "is_digit (hd ds)" and l: "is_digit (last ds)"
    by (auto simp: list_all_iff)
  have d1: "dropWhile is_space ds = ds"
    using h digit_not_space by (simp add: dropWhile_eq_self_iff)
  have "dropWhile is_space (rev ds) = rev ds"
    using l assms(2) digit_not_space by (simp add: dropWhile_eq_self_iff hd_rev)
  then have d2: "rev (dropWhile is_space (rev ds)) = ds" by simp
  have f: "filter is_digit ds = ds"
    using assms(1) by (simp add: list_all_iff)
  obtain c cs where ds: "ds = c # cs" using assms(2) by (cases ds) auto
  with h have c: "c \<noteq> CHR ''-''" "c \<noteq> CHR ''+''" using digit_not_sign by auto
  have ok: "digit_part_ok False ds"
    using assms by (simp add: digit_part_ok_digits)
  show "py_int ds = Inr (int (digits_val ds))"
    using d1 d2 f ok c ds by (simp add: py_int_def Let_def)
  have s: "\<not> is_space CHR ''-''" by (simp add: is_space_def)
  show "py_int (CHR ''-'' # ds) = Inr (- int (digits_val ds))"
    using s d2 f ok by (simp add: py_int_def Let_def)
qed

lemma py_int_format_0wd: "py_int (format_0wd w n) = Inr n"
proof -
  let ?ds = "nat_digits (nat \<bar>n\<bar>)"
  have a: "list_all is_digit (replicate k CHR ''0'' @ ?ds)" for k
    using nat_digits_all_digits [of "nat \<bar>n\<bar>"] by (auto simp: list_all_iff is_digit_def)
  have ne: "replicate k CHR ''0'' @ ?ds \<noteq> []" for k
    by (simp add: nat_digits_nonempty)
  have v: "digits_val (replicate k CHR ''0'' @ ?ds) = nat \<bar>n\<bar>" for k
    by (simp add: digits_val_zeros digits_val_nat_digits)
  show ?thesis
  proof (cases "n < 0")
    case True
    then show ?thesis
      using py_int_digits(2) [OF a ne] v by (simp add: format_0wd_def Let_def)
  next
    case False
    then show ?thesis
      using py_int_digits(1) [OF a ne] v by (simp add: format_0wd_def Let_def)
  qed
qed

lemma format_0wd_chars:
  "c \<in> set (format_0wd w n) \<Longrightarrow> is_digit c \<or> c = CHR ''-''"
  using nat_digits_all_digits [of "nat \<bar>n\<bar>"]
  by (auto simp: format_0wd_def Let_def list_all_iff is_digit_def split: if_splits)

lemma format_0wd_no_sep:
  "CHR ''_'' \<notin> set (format_0wd w n)" "CHR ''.'' \<notin> set (format_0wd w n)"
  using format_0wd_chars [of _ w n] digit_not_sign by auto

lemma length_nat_digits: "0 < w \<Longrightarrow> n < 10 ^ w \<Longrightarrow> length (nat_digits n) \<le> w"
proof (induction n arbitrary: w rule: nat_digits.induct)
  case (1 n)
  show ?case
  proof (cases "n < 10")
    case True
    then show ?thesis using 1(2) by (subst nat_digits.simps) simp
  next
    case False
    then obtain w' where w: "w = Suc w'" "0 < w'"
      using 1(2,3) by (cases w; cases "w - 1") auto
    with 1(3) have "n div 10 < 10 ^ w'" by (simp add: less_mult_imp_div_less mult.commute)
    with 1(1) [OF False w(2)] have "length (nat_digits (n div 10)) \<le> w'" by simp
    with False w show ?thesis by (subst nat_digits.simps) simp
  qed
qed

lemma zero_padded_format:
  assumes "0 < w" "0 \<le> n" "n < 10 ^ w"
  shows "zero_padded w n (format_0wd w n)"
proof -
  from assms have "nat \<bar>n\<bar> < 10 ^ w" by (simp add: nat_less_iff)
  then have "length (nat_digits (nat \<bar>n\<bar>)) \<le> w"
    using length_nat_digits assms(1) by blast
  then show ?thesis
    using assms(2) nat_digits_all_digits [of "nat \<bar>n\<bar>"]
    by (auto simp: zero_padded_def format_0wd_def Let_def digits_val_zeros digits_val_nat_digits
        list_all_iff is_digit_def)
qed

lemma py_getitem_from_end:
  "0 < k \<Longrightarrow> k \<le> length xs \<Longrightarrow> py_getitem xs (- int k) = Inr (xs ! (length xs - k))"
  "length xs < k \<Longrightarrow> py_getitem xs (- int k) = Inl IndexError"
  by (auto simp: py_getitem_def)

lemma drop_last_three:
  assumes "3 \<le> length xs"
  shows "drop (length xs - 3) xs =
           [xs ! (length xs - 3), xs ! (length xs - 2), xs ! (length xs - 1)]"
proof -
  have "length (drop (length xs - 3) xs) = Suc (Suc (Suc 0))"
    using assms by simp
  moreover have "length ys = Suc (Suc (Suc 0)) \<Longrightarrow> \<exists>a b c. ys = [a, b, c]" for ys :: "'a list"
    by (auto simp: length_Suc_conv)
  ultimately obtain a b c where d: "drop (length xs - 3) xs = [a, b, c]"
    by blast
  have "xs = take (length xs - 3) xs @ drop (length xs - 3) xs" by simp
  with d have xs: "xs = take (length xs - 3) xs @ [a, b, c]" by simp
  have l: "length (take (length xs - 3) xs) = length xs - 3" by simp
  have "xs ! (length xs - 3) = a" "xs ! (length xs - 2) = b" "xs ! (length xs - 1) = c"
    using assms by (subst xs, simp add: nth_append l del: append_take_drop_id)+
  with d show ?thesis by simp
qed

lemma get_info_four_segs:
  assumes "4 \<le> length (get_info_segs fname)"
  shows "get_info fname =
           (let segs = get_info_segs fname; n = length segs
            in and_then (py_int (segs ! (n - 3))) (\<lambda>hour.
               and_then (py_int (segs ! (n - 2))) (\<lambda>member.
               and_then (py_int (segs ! (n - 1))) (\<lambda>lead.
               Inr (segs ! (n - 4), hour, member, lead)))))"
proof -
  let ?segs = "get_info_segs fname"
  have "py_getitem ?segs (- 4) = Inr (?segs ! (length ?segs - 4))"
       "py_getitem ?segs (- 3) = Inr (?segs ! (length ?segs - 3))"
       "py_getitem ?segs (- 2) = Inr (?segs ! (length ?segs - 2))"
       "py_getitem ?segs (- 1) = Inr (?segs ! (length ?segs - 1))"
    using assms py_getitem_from_end(1) [of 4 ?segs] py_getitem_from_end(1) [of 3 ?segs]
      py_getitem_from_end(1) [of 2 ?segs] py_getitem_from_end(1) [of 1 ?segs]
    by simp_all
  then show ?thesis by (simp add: get_info_def Let_def)
qed

section \<open>The filename parser: results\<close>

text \<open>
  C5. The filename parser applied to \<open>prods_op_mogreps-g_20160107_00_00_003.nc\<close> returns
  the date piece \<open>20160107\<close> as a string and the last three pieces, the extension
  stripped from the final one, as the integers 0, 0 and 3.
\<close>

theorem get_info_example:
  "get_info ''prods_op_mogreps-g_20160107_00_00_003.nc'' = Inr (''20160107'', 0, 0, 3)"
  by code_simp

text \<open>
  C4. A name with fewer than four underscore-delimited pieces, and a name whose last
  three pieces (the final one cut at its first dot) are not all accepted by \<open>int\<close>,
  makes \<open>get_info\<close> fail instead of returning: with \<open>IndexError\<close> when there are fewer
  than four pieces, with \<open>ValueError\<close> otherwise. These two classes are the source's
  malformed-input failures.
\<close>

theorem get_info_malformed:
  assumes "length (py_split CHR ''_'' fname) < 4 \<or>
           \<not> list_all int_parseable
               (drop (length (get_info_segs fname) - 3) (get_info_segs fname))"
  shows "get_info fname =
           Inl (if length (py_split CHR ''_'' fname) < 4 then IndexError else ValueError)"
proof (cases "length (py_split CHR ''_'' fname) < 4")
  case True
  then have "py_getitem (get_info_segs fname) (- 4) = Inl IndexError"
    using py_getitem_from_end(2) [of "get_info_segs fname" 4]
    by (simp add: length_get_info_segs)
  with True show ?thesis by (simp add: get_info_def Let_def)
next
  case False
  let ?segs = "get_info_segs fname"
  let ?n = "length ?segs"
  from False have n: "4 \<le> ?n" by (simp add: length_get_info_segs)
  with False assms have
    "\<not> list_all int_parseable [?segs ! (?n - 3), ?segs ! (?n - 2), ?segs ! (?n - 1)]"
    using drop_last_three [of ?segs] by simp
  then have bad: "py_int (?segs ! (?n - 3)) = Inl ValueError \<or>
      py_int (?segs ! (?n - 2)) = Inl ValueError \<or> py_int (?segs ! (?n - 1)) = Inl ValueError"
    using not_int_parseable by auto
  have "get_info fname = Inl ValueError"
    using bad py_int_cases [of "?segs ! (?n - 3)"] py_int_cases [of "?segs ! (?n - 2)"]
    by (auto simp: get_info_four_segs [OF n] Let_def)
  with False show ?thesis by simp
qed

text \<open>Two malformed names: one with three pieces, one whose member piece is not a number.\<close>

theorem get_info_malformed_witness:
  "length (py_split CHR ''_'' ''mogreps_00_003.nc'') < 4 \<and>
   get_info ''mogreps_00_003.nc'' = Inl IndexError \<and>
   \<not> length (py_split CHR ''_'' ''prods_20160107_00_xx_003.nc'') < 4 \<and>
   \<not> list_all int_parseable
       (drop (length (get_info_segs ''prods_20160107_00_xx_003.nc'') - 3)
          (get_info_segs ''prods_20160107_00_xx_003.nc'')) \<and>
   get_info ''prods_20160107_00_xx_003.nc'' = Inl ValueError"
proof -
  have a: "length (py_split CHR ''_'' ''mogreps_00_003.nc'') < 4" by code_simp
  have b: "\<not> length (py_split CHR ''_'' ''prods_20160107_00_xx_003.nc'') < 4" by code_simp
  have c: "\<not> list_all int_parseable
       (drop (length (get_info_segs ''prods_20160107_00_xx_003.nc'') - 3)
          (get_info_segs ''prods_20160107_00_xx_003.nc''))" by code_simp
  show ?thesis
    using a b c get_info_malformed [of "''mogreps_00_003.nc''"]
      get_info_malformed [of "''prods_20160107_00_xx_003.nc''"]
    by simp
qed

section \<open>The name of the global file\<close>

lemma and_then_Inr: "and_then m f = Inr y \<longleftrightarrow> (\<exists>x. m = Inr x \<and> f x = Inr y)"
  by (cases m) auto

lemma and_then_Inl: "and_then m f = Inl e \<longleftrightarrow> m = Inl e \<or> (\<exists>x. m = Inr x \<and> f x = Inl e)"
  by (cases m) auto

lemma get_info_date_no_sep:
  assumes "get_info fname = Inr (date, hour, member, lead)"
  shows "CHR ''_'' \<notin> set date"
proof -
  let ?segs = "get_info_segs fname"
  let ?raw = "py_split CHR ''_'' fname"
  have n: "4 \<le> length ?segs"
  proof (rule ccontr)
    assume "\<not> 4 \<le> length ?segs"
    then have "py_getitem ?segs (- 4) = Inl IndexError"
      using py_getitem_from_end(2) [of ?segs 4] by simp
    with assms show False by (simp add: get_info_def Let_def)
  qed
  from assms have "date = ?segs ! (length ?segs - 4)"
    by (auto simp: get_info_four_segs [OF n] Let_def and_then_Inr)
  also have "\<dots> = ?raw ! (length ?raw - 4)"
    using n by (simp add: get_info_segs_def Let_def)
  also have "\<dots> \<in> set ?raw"
    using n by (simp add: length_get_info_segs)
  finally show ?thesis by (rule py_split_pieces)
qed

lemma split_g_fname:
  assumes "CHR ''_'' \<notin> set date"
  shows "py_split CHR ''_'' (g_fname (date, hour, member, lead)) =
           [''prods'', ''op'', ''mogreps-g'', date, format_0wd 2 (hour - 3),
            format_0wd 2 member, format_0wd 3 (lead + 3) @ ''.nc'']"
proof -
  let ?c = "CHR ''_''"
  let ?hh = "format_0wd 2 (hour - 3)"
  let ?mm = "format_0wd 2 member"
  let ?ll = "format_0wd 3 (lead + 3)"
  let ?r6 = "?ll @ ''.nc''"
  let ?r5 = "?mm @ ?c # ?r6"
  let ?r4 = "?hh @ ?c # ?r5"
  let ?r3 = "date @ ?c # ?r4"
  let ?r2 = "''mogreps-g'' @ ?c # ?r3"
  let ?r1 = "''op'' @ ?c # ?r2"
  have s6: "py_split ?c ?r6 = [?r6]"
    by (rule py_split_no_sep) (simp add: format_0wd_no_sep)
  have "py_split ?c ?r5 = ?mm # py_split ?c ?r6"
    by (rule py_split_append) (rule format_0wd_no_sep)
  then have s5: "py_split ?c ?r5 = [?mm, ?r6]" by (simp only: s6)
  have "py_split ?c ?r4 = ?hh # py_split ?c ?r5"
    by (rule py_split_append) (rule format_0wd_no_sep)
  then have s4: "py_split ?c ?r4 = [?hh, ?mm, ?r6]" by (simp only: s5)
  have "py_split ?c ?r3 = date # py_split ?c ?r4"
    by (rule py_split_append) (rule assms)
  then have s3: "py_split ?c ?r3 = [date, ?hh, ?mm, ?r6]" by (simp only: s4)
  have "py_split ?c ?r2 = ''mogreps-g'' # py_split ?c ?r3"
    by (rule py_split_append) simp
  then have s2: "py_split ?c ?r2 = [''mogreps-g'', date, ?hh, ?mm, ?r6]" by (simp only: s3)
  have "py_split ?c ?r1 = ''op'' # py_split ?c ?r2"
    by (rule py_split_append) simp
  then have s1: "py_split ?c ?r1 = [''op'', ''mogreps-g'', date, ?hh, ?mm, ?r6]"
    by (simp only: s2)
  have "py_split ?c (''prods'' @ ?c # ?r1) = ''prods'' # py_split ?c ?r1"
    by (rule py_split_append) simp
  then have s0: "py_split ?c (''prods'' @ ?c # ?r1) =
      [''prods'', ''op'', ''mogreps-g'', date, ?hh, ?mm, ?r6]"
    by (simp only: s1)
  have "g_fname (date, hour, member, lead) = ''prods'' @ ?c # ?r1"
    by (simp add: g_fname_def)
  with s0 show ?thesis by (simp only:)
qed

lemma segs_g_fname:
  assumes "CHR ''_'' \<notin> set date"
  shows "get_info_segs (g_fname (date, hour, member, lead)) =
           [''prods'', ''op'', ''mogreps-g'', date, format_0wd 2 (hour - 3),
            format_0wd 2 member, format_0wd 3 (lead + 3)]"
proof -
  have "py_split CHR ''.'' (format_0wd 3 (lead + 3) @ CHR ''.'' # ''nc'') =
          format_0wd 3 (lead + 3) # py_split CHR ''.'' ''nc''"
    by (rule py_split_append) (simp add: format_0wd_no_sep)
  then have "hd (py_split CHR ''.'' (format_0wd 3 (lead + 3) @ ''.nc'')) = format_0wd 3 (lead + 3)"
    by simp
  then show ?thesis
    by (simp add: get_info_segs_def Let_def split_g_fname [OF assms])
qed

lemma get_info_g_fname:
  assumes "CHR ''_'' \<notin> set date"
  shows "get_info (g_fname (date, hour, member, lead)) = Inr (date, hour - 3, member, lead + 3)"
  by (simp add: get_info_def Let_def segs_g_fname [OF assms] py_getitem_def py_int_format_0wd)

lemma format_0wd_negative: "n < 0 \<Longrightarrow> hd (format_0wd w n) = CHR ''-''"
  by (simp add: format_0wd_def Let_def)

text \<open>
  C2, as stated, fails for a regional run hour below 3: the driver subtracts 3 without
  wrapping to the previous day, and the format writes the negative hour as a minus sign
  and one digit. For the regional name \<open>prods_op_mogreps-uk_20160107_00_00_003.nc\<close> the
  hour field of the global name is \<open>-3\<close>, which is not a two-digit zero-padded number.
\<close>

theorem g_fname_negative_hour_counterexample:
  "get_info ''prods_op_mogreps-uk_20160107_00_00_003.nc'' = Inr (''20160107'', 0, 0, 3) \<and>
   g_fname (''20160107'', 0, 0, 3) = ''prods_op_mogreps-g_20160107_-3_00_006.nc'' \<and>
   get_info_segs (g_fname (''20160107'', 0, 0, 3)) =
     [''prods'', ''op'', ''mogreps-g'', ''20160107'', ''-3'', ''00'', ''006''] \<and>
   \<not> zero_padded 2 (0 - 3) ''-3''"
  by code_simp

text \<open>
  C2, amended. For every regional file name parsed to (date, H, M, L), the driver computes
  the global file name \<open>prods_op_mogreps-g_<date>_<hh>_<mm>_<lll>.nc\<close>, which parses back
  to (date, H - 3, M, L + 3): the member is unchanged and no wrap-around is applied. The
  fields are written with a minimum width of 2, 2 and 3 characters, zero-padded, a minus
  sign counting toward the width: \<open>hh\<close> is exactly two digits when \<open>3 \<le> H < 103\<close>, \<open>mm\<close> is
  exactly two digits when \<open>0 \<le> M < 100\<close>, \<open>lll\<close> is exactly three digits when
  \<open>-3 \<le> L < 997\<close>, and for \<open>H < 3\<close> the hour field starts with a minus sign.
\<close>

theorem g_fname_derivation:
  assumes "get_info fname = Inr (date, hour, member, lead)"
  shows "get_info (g_fname (date, hour, member, lead)) = Inr (date, hour - 3, member, lead + 3) \<and>
         get_info_segs (g_fname (date, hour, member, lead)) =
           [''prods'', ''op'', ''mogreps-g'', date, format_0wd 2 (hour - 3),
            format_0wd 2 member, format_0wd 3 (lead + 3)] \<and>
         (3 \<le> hour \<and> hour < 103 \<longrightarrow> zero_padded 2 (hour - 3) (format_0wd 2 (hour - 3))) \<and>
         (0 \<le> member \<and> member < 100 \<longrightarrow> zero_padded 2 member (format_0wd 2 member)) \<and>
         (- 3 \<le> lead \<and> lead < 997 \<longrightarrow> zero_padded 3 (lead + 3) (format_0wd 3 (lead + 3))) \<and>
         (hour < 3 \<longrightarrow> hd (format_0wd 2 (hour - 3)) = CHR ''-'')"
proof -
  have d: "CHR ''_'' \<notin> set date" using assms by (rule get_info_date_no_sep)
  have "3 \<le> hour \<and> hour < 103 \<longrightarrow> zero_padded 2 (hour - 3) (format_0wd 2 (hour - 3))"
    using zero_padded_format [of 2 "hour - 3"] by simp
  moreover have "0 \<le> member \<and> member < 100 \<longrightarrow> zero_padded 2 member (format_0wd 2 member)"
    using zero_padded_format [of 2 member] by simp
  moreover have "- 3 \<le> lead \<and> lead < 997 \<longrightarrow> zero_padded 3 (lead + 3) (format_0wd 3 (lead + 3))"
    using zero_padded_format [of 3 "lead + 3"] by simp
  moreover have "hour < 3 \<longrightarrow> hd (format_0wd 2 (hour - 3)) = CHR ''-''"
    using format_0wd_negative [of "hour - 3" 2] by simp
  ultimately show ?thesis
    using get_info_g_fname [OF d] segs_g_fname [OF d] by simp
qed

text \<open>The example of the specification: run hour 6 and lead 3 give run hour 03 and lead 006.\<close>

theorem g_fname_derivation_witness:
  "get_info ''prods_op_mogreps-uk_20160107_06_11_003.nc'' = Inr (''20160107'', 6, 11, 3) \<and>
   g_fname (''20160107'', 6, 11, 3) = ''prods_op_mogreps-g_20160107_03_11_006.nc'' \<and>
   get_info (g_fname (''20160107'', 6, 11, 3)) = Inr (''20160107'', 3, 11, 6) \<and>
   zero_padded 2 3 (format_0wd 2 3) \<and> zero_padded 2 11 (format_0wd 2 11) \<and>
   zero_padded 3 6 (format_0wd 3 6)"
proof -
  have a: "get_info ''prods_op_mogreps-uk_20160107_06_11_003.nc'' = Inr (''20160107'', 6, 11, 3)"
    by code_simp
  have b: "g_fname (''20160107'', 6, 11, 3) = ''prods_op_mogreps-g_20160107_03_11_006.nc''"
    by code_simp
  show ?thesis
    using a b g_fname_derivation [OF a] by simp
qed

section \<open>The level selector: results\<close>

lemma re_match_prefix_None: "re_match_prefix lit s = None \<longleftrightarrow> \<not> prefix lit s"
  by (simp add: re_match_prefix_def)

lemma re_match_prefix_single_line:
  assumes "prefix lit s" and "CHR 0x0A \<notin> set s"
  shows "re_match_prefix lit s = Some s"
proof -
  from assms(1) obtain r where s: "s = lit @ r" by (auto simp: prefix_def)
  with assms(2) have "takeWhile (\<lambda>c. c \<noteq> CHR 0x0A) r = r"
    by (auto simp: takeWhile_eq_all_conv)
  with s assms(1) show ?thesis by (simp add: re_match_prefix_def)
qed

lemma any_match_iff: "any_match lib cube lit \<longleftrightarrow> matching_coords lib cube lit \<noteq> []"
  by (auto simp: any_match_def matching_coords_def list_ex_iff re_match_prefix_None
      filter_empty_conv)

lemma any_match_iff_ex:
  "any_match lib cube lit \<longleftrightarrow> (\<exists>d\<in>set (cube_coords lib cube). prefix lit (coord_name lib d))"
  by (auto simp: any_match_def list_ex_iff re_match_prefix_None)

lemma vert_coord_loop_last:
  assumes "\<forall>d\<in>set ds. prefix lit (coord_name lib d) \<longrightarrow>
             CHR 0x0A \<notin> set (coord_name lib d) \<and>
             cube_coord lib cube (coord_name lib d) = Inr d"
  shows "vert_coord_loop lib cube lit ds acc =
           Inr (case filter (\<lambda>d. prefix lit (coord_name lib d)) ds of
                  [] \<Rightarrow> acc
                | m # ms \<Rightarrow> Some (coord_name lib (last (m # ms)), last (m # ms)))"
  using assms
proof (induction ds arbitrary: acc)
  case Nil
  then show ?case by simp
next
  case (Cons d ds)
  then have IH: "\<And>acc. vert_coord_loop lib cube lit ds acc =
           Inr (case filter (\<lambda>d. prefix lit (coord_name lib d)) ds of
                  [] \<Rightarrow> acc
                | m # ms \<Rightarrow> Some (coord_name lib (last (m # ms)), last (m # ms)))"
    by simp
  show ?case
  proof (cases "prefix lit (coord_name lib d)")
    case False
    then show ?thesis by (simp add: IH re_match_prefix_def)
  next
    case True
    with Cons.prems have "re_match_prefix lit (coord_name lib d) = Some (coord_name lib d)"
      and "cube_coord lib cube (coord_name lib d) = Inr d"
      by (simp_all add: re_match_prefix_single_line)
    with True show ?thesis
      by (simp add: IH split: list.splits)
  qed
qed

lemma py_min_Min: "xs \<noteq> [] \<Longrightarrow> py_min xs = Inr (Min (set xs))"
  by (cases xs) (simp_all add: Min.set_eq_fold [symmetric])

lemma py_max_Max: "xs \<noteq> [] \<Longrightarrow> py_max xs = Inr (Max (set xs))"
  by (cases xs) (simp_all add: Max.set_eq_fold [symmetric])

lemma extract_level_last:
  assumes "names_identify lib cube lit"
    and "matching_coords lib cube lit \<noteq> []"
    and "d = last (matching_coords lib cube lit)"
  shows "extract_level lib cube lit pick =
           and_then (pick (coord_points lib d)) (\<lambda>v.
           and_then (cube_extract lib cube (coord_name lib d) v) (\<lambda>level.
           Inr (level, Some (coord_name lib d))))"
proof -
  have "\<forall>d\<in>set (cube_coords lib cube). prefix lit (coord_name lib d) \<longrightarrow>
             CHR 0x0A \<notin> set (coord_name lib d) \<and>
             cube_coord lib cube (coord_name lib d) = Inr d"
    using assms(1) by (simp add: names_identify_def matching_coords_def list_all_iff)
  then have "vert_coord_loop lib cube lit (cube_coords lib cube) None =
      Inr (case matching_coords lib cube lit of
             [] \<Rightarrow> None
           | m # ms \<Rightarrow> Some (coord_name lib (last (m # ms)), last (m # ms)))"
    unfolding matching_coords_def by (rule vert_coord_loop_last)
  with assms(2,3) show ?thesis
    by (simp add: extract_level_def split: list.splits)
qed

lemma last_matching_coords:
  assumes "cube_coords lib cube = before @ d # after"
    and "prefix lit (coord_name lib d)"
    and "\<forall>d'\<in>set after. \<not> prefix lit (coord_name lib d')"
  shows "matching_coords lib cube lit \<noteq> []" and "last (matching_coords lib cube lit) = d"
proof -
  have "filter (\<lambda>d. prefix lit (coord_name lib d)) after = []"
    using assms(3) by (simp add: filter_empty_conv)
  then have "matching_coords lib cube lit =
      filter (\<lambda>d. prefix lit (coord_name lib d)) before @ [d]"
    using assms(1,2) by (simp add: matching_coords_def)
  then show "matching_coords lib cube lit \<noteq> []" and "last (matching_coords lib cube lit) = d"
    by simp_all
qed

text \<open>
  C6, as stated, fails on cubes that have a height coordinate. The loop of lines 43 to
  47 looks every matching name up with \<open>cube.coord\<close>: when two coordinates bear the name
  \<open>height\<close> the lookup raises. A height coordinate without points makes \<open>min\<close> raise
  \<open>ValueError\<close>. And a name with a line feed is cut there by the pattern, so that the
  name looked up is not the name of the coordinate.
\<close>

theorem get_ground_level_height_counterexample:
  "matching_coords (sample_iris [])
     (SampleCube ''t'' [(''height'', [50, 10]), (''height'', [20])]) ''height'' =
     [(''height'', [50, 10]), (''height'', [20])] \<and>
   get_ground_level (sample_iris [])
     (Some (SampleCube ''t'' [(''height'', [50, 10]), (''height'', [20])])) = Inl KeyError \<and>
   matching_coords (sample_iris []) (SampleCube ''t'' [(''height'', [])]) ''height'' =
     [(''height'', [])] \<and>
   get_ground_level (sample_iris []) (Some (SampleCube ''t'' [(''height'', [])])) =
     Inl ValueError \<and>
   matching_coords (sample_iris [])
     (SampleCube ''t'' [(''height'' @ [CHR 0x0A] @ ''agl'', [50, 10])]) ''height'' =
     [(''height'' @ [CHR 0x0A] @ ''agl'', [50, 10])] \<and>
   get_ground_level (sample_iris [])
     (Some (SampleCube ''t'' [(''height'' @ [CHR 0x0A] @ ''agl'', [50, 10])])) = Inl KeyError"
  by code_simp

text \<open>
  C6, amended. For a cube with at least one coordinate whose name starts with \<open>height\<close>,
  provided that every such coordinate has a single-line name whose lookup in the cube
  gives that coordinate back, and that the last of them, \<open>d\<close>, has at least one point:
  the level selector returns what \<open>cube.extract\<close> yields for the constraint that \<open>d\<close>
  equals the minimum of its values, together with the name of \<open>d\<close>; a failure of the
  extraction is passed on. Nothing is assumed about pressure coordinates, so the height
  rule comes first. How many levels the extraction keeps is the library's matter.
\<close>

theorem get_ground_level_height:
  assumes "\<exists>d'\<in>set (cube_coords lib cube). prefix ''height'' (coord_name lib d')"
    and "names_identify lib cube ''height''"
    and "d = last (matching_coords lib cube ''height'')"
    and "coord_points lib d \<noteq> []"
  shows "prefix ''height'' (coord_name lib d) \<and> d \<in> set (cube_coords lib cube) \<and>
         get_ground_level lib (Some cube) =
           and_then (cube_extract lib cube (coord_name lib d) (Min (set (coord_points lib d))))
             (\<lambda>level. Inr (level, Some (coord_name lib d)))"
proof -
  from assms(1) have a: "any_match lib cube ''height''" by (simp add: any_match_iff_ex)
  then have ne: "matching_coords lib cube ''height'' \<noteq> []" by (simp add: any_match_iff)
  then have "d \<in> set (matching_coords lib cube ''height'')" using assms(3) by simp
  then have "prefix ''height'' (coord_name lib d)" "d \<in> set (cube_coords lib cube)"
    by (simp_all add: matching_coords_def)
  moreover have "get_ground_level lib (Some cube) =
           and_then (cube_extract lib cube (coord_name lib d) (Min (set (coord_points lib d))))
             (\<lambda>level. Inr (level, Some (coord_name lib d)))"
    using a by (simp add: get_ground_level_def extract_level_last [OF assms(2) ne assms(3)]
        py_min_Min [OF assms(4)])
  ultimately show ?thesis by simp
qed

text \<open>A cube with a height and a pressure coordinate: the level of height 10 is selected.\<close>

theorem get_ground_level_height_witness:
  "(\<exists>d'\<in>set (cube_coords (sample_iris []) levels_sample).
      prefix ''height'' (coord_name (sample_iris []) d')) \<and>
   (\<exists>d'\<in>set (cube_coords (sample_iris []) levels_sample).
      prefix ''pressure'' (coord_name (sample_iris []) d')) \<and>
   names_identify (sample_iris []) levels_sample ''height'' \<and>
   last (matching_coords (sample_iris []) levels_sample ''height'') = (''height'', [50, 10, 20]) \<and>
   get_ground_level (sample_iris []) (Some levels_sample) =
     Inr (Some (SampleCube ''t''
                 [(''time'', [1]), (''height'', [10]), (''pressure'', [850, 1000])]),
          Some ''height'')"
proof -
  let ?lib = "sample_iris [] :: (sample_cube, sample_coord, int) iris"
  let ?d = "(''height'', [50, 10, 20 :: int])"
  have a: "\<exists>d'\<in>set (cube_coords ?lib levels_sample). prefix ''height'' (coord_name ?lib d')"
    by (simp add: sample_iris_def levels_sample_def)
  have p: "\<exists>d'\<in>set (cube_coords ?lib levels_sample). prefix ''pressure'' (coord_name ?lib d')"
    by (simp add: sample_iris_def levels_sample_def)
  have b: "names_identify ?lib levels_sample ''height''"
    by (simp add: names_identify_def matching_coords_def sample_iris_def sample_coord_of_def
        levels_sample_def)
  have c: "?d = last (matching_coords ?lib levels_sample ''height'')"
    by (simp add: matching_coords_def sample_iris_def levels_sample_def)
  have d: "coord_points ?lib ?d \<noteq> []"
    by (simp add: sample_iris_def)
  have e: "cube_extract ?lib levels_sample ''height'' 10 =
      Inr (Some (SampleCube ''t''
                  [(''time'', [1]), (''height'', [10]), (''pressure'', [850, 1000])]))"
    by (simp add: sample_iris_def sample_extract_def sample_coord_of_def levels_sample_def)
  have "get_ground_level ?lib (Some levels_sample) =
     Inr (Some (SampleCube ''t''
                 [(''time'', [1]), (''height'', [10]), (''pressure'', [850, 1000])]),
          Some ''height'')"
    using e get_ground_level_height [OF a b c d] by (simp add: sample_iris_def)
  with a p b c show ?thesis by simp
qed

text \<open>
  C7, as stated, fails on cubes with no height coordinate and a pressure coordinate:
  two coordinates named \<open>pressure\<close> make the lookup of line 55 raise, and a pressure
  coordinate without points makes \<open>max\<close> raise \<open>ValueError\<close>.
\<close>

theorem get_ground_level_pressure_counterexample:
  "matching_coords (sample_iris [])
     (SampleCube ''t'' [(''pressure'', [850, 1000]), (''pressure'', [500])]) ''height'' = [] \<and>
   matching_coords (sample_iris [])
     (SampleCube ''t'' [(''pressure'', [850, 1000]), (''pressure'', [500])]) ''pressure'' =
     [(''pressure'', [850, 1000]), (''pressure'', [500])] \<and>
   get_ground_level (sample_iris [])
     (Some (SampleCube ''t'' [(''pressure'', [850, 1000]), (''pressure'', [500])])) =
     Inl KeyError \<and>
   matching_coords (sample_iris []) (SampleCube ''t'' [(''pressure'', [])]) ''height'' = [] \<and>
   matching_coords (sample_iris []) (SampleCube ''t'' [(''pressure'', [])]) ''pressure'' =
     [(''pressure'', [])] \<and>
   get_ground_level (sample_iris []) (Some (SampleCube ''t'' [(''pressure'', [])])) =
     Inl ValueError"
  by code_simp

text \<open>
  C7, amended. For a cube with no coordinate whose name starts with \<open>height\<close> and at least
  one whose name starts with \<open>pressure\<close>, provided that every such pressure coordinate
  has a single-line name whose lookup in the cube gives that coordinate back, and that
  the last of them, \<open>d\<close>, has at least one point: the level selector returns what
  \<open>cube.extract\<close> yields for the constraint that \<open>d\<close> equals the maximum of its values,
  together with the name of \<open>d\<close>; a failure of the extraction is passed on.
\<close>

theorem get_ground_level_pressure:
  assumes "\<forall>d'\<in>set (cube_coords lib cube). \<not> prefix ''height'' (coord_name lib d')"
    and "\<exists>d'\<in>set (cube_coords lib cube). prefix ''pressure'' (coord_name lib d')"
    and "names_identify lib cube ''pressure''"
    and "d = last (matching_coords lib cube ''pressure'')"
    and "coord_points lib d \<noteq> []"
  shows "prefix ''pressure'' (coord_name lib d) \<and> d \<in> set (cube_coords lib cube) \<and>
         get_ground_level lib (Some cube) =
           and_then (cube_extract lib cube (coord_name lib d) (Max (set (coord_points lib d))))
             (\<lambda>level. Inr (level, Some (coord_name lib d)))"
proof -
  from assms(1) have h: "\<not> any_match lib cube ''height''" by (simp add: any_match_iff_ex)
  from assms(2) have a: "any_match lib cube ''pressure''" by (simp add: any_match_iff_ex)
  then have ne: "matching_coords lib cube ''pressure'' \<noteq> []" by (simp add: any_match_iff)
  then have "d \<in> set (matching_coords lib cube ''pressure'')" using assms(4) by simp
  then have "prefix ''pressure'' (coord_name lib d)" "d \<in> set (cube_coords lib cube)"
    by (simp_all add: matching_coords_def)
  moreover have "get_ground_level lib (Some cube) =
           and_then (cube_extract lib cube (coord_name lib d) (Max (set (coord_points lib d))))
             (\<lambda>level. Inr (level, Some (coord_name lib d)))"
    using h a by (simp add: get_ground_level_def extract_level_last [OF assms(3) ne assms(4)]
        py_max_Max [OF assms(5)])
  ultimately show ?thesis by simp
qed

text \<open>The global sample cube: the level of pressure 1000 is selected.\<close>

theorem get_ground_level_pressure_witness:
  "matching_coords (sample_iris []) (g_sample ''t'') ''height'' = [] \<and>
   (\<exists>d'\<in>set (cube_coords (sample_iris []) (g_sample ''t'')).
      prefix ''pressure'' (coord_name (sample_iris []) d')) \<and>
   names_identify (sample_iris []) (g_sample ''t'') ''pressure'' \<and>
   last (matching_coords (sample_iris []) (g_sample ''t'') ''pressure'') =
     (''pressure'', [850, 1000, 500]) \<and>
   get_ground_level (sample_iris []) (Some (g_sample ''t'')) =
     Inr (Some (SampleCube ''t''
                 [(''time'', [2, 5]), (''pressure'', [1000]),
                  (''latitude'', [0, 3, 4, 9]), (''longitude'', [1, 5, 6, 8]),
                  (''forecast_period'', [6])]),
          Some ''pressure'')"
proof -
  let ?lib = "sample_iris [] :: (sample_cube, sample_coord, int) iris"
  let ?c = "g_sample ''t''"
  let ?d = "(''pressure'', [850, 1000, 500 :: int])"
  have h: "\<forall>d'\<in>set (cube_coords ?lib ?c). \<not> prefix ''height'' (coord_name ?lib d')"
    by (simp add: sample_iris_def g_sample_def)
  have p: "\<exists>d'\<in>set (cube_coords ?lib ?c). prefix ''pressure'' (coord_name ?lib d')"
    by (simp add: sample_iris_def g_sample_def)
  have b: "names_identify ?lib ?c ''pressure''"
    by (simp add: names_identify_def matching_coords_def sample_iris_def sample_coord_of_def
        g_sample_def)
  have c: "?d = last (matching_coords ?lib ?c ''pressure'')"
    by (simp add: matching_coords_def sample_iris_def g_sample_def)
  have d: "coord_points ?lib ?d \<noteq> []"
    by (simp add: sample_iris_def)
  have e: "cube_extract ?lib ?c ''pressure'' 1000 =
      Inr (Some (SampleCube ''t''
                 [(''time'', [2, 5]), (''pressure'', [1000]),
                  (''latitude'', [0, 3, 4, 9]), (''longitude'', [1, 5, 6, 8]),
                  (''forecast_period'', [6])]))"
    by (simp add: sample_iris_def sample_extract_def sample_coord_of_def g_sample_def)
  have "get_ground_level ?lib (Some ?c) =
     Inr (Some (SampleCube ''t''
                 [(''time'', [2, 5]), (''pressure'', [1000]),
                  (''latitude'', [0, 3, 4, 9]), (''longitude'', [1, 5, 6, 8]),
                  (''forecast_period'', [6])]),
          Some ''pressure'')"
    using e get_ground_level_pressure [OF h p b c d] by (simp add: sample_iris_def)
  moreover have "matching_coords ?lib ?c ''height'' = []"
    by (simp add: matching_coords_def sample_iris_def g_sample_def)
  ultimately show ?thesis using p b c by simp
qed

text \<open>
  C8, as stated, fails within the case of several matches: the loop looks up every
  matching name, not only the last. With the coordinates \<open>height\<close>, \<open>height\<close> and
  \<open>height_above_ground\<close> the last match looks up fine, yet the lookup of the first
  raises and no level is chosen.
\<close>

theorem get_ground_level_last_match_counterexample:
  "matching_coords (sample_iris [])
     (SampleCube ''t''
        [(''height'', [5, 3]), (''height'', [9]), (''height_above_ground'', [7, 4])])
     ''height'' =
     [(''height'', [5, 3]), (''height'', [9]), (''height_above_ground'', [7, 4])] \<and>
   cube_coord (sample_iris [])
     (SampleCube ''t''
        [(''height'', [5, 3]), (''height'', [9]), (''height_above_ground'', [7, 4])])
     ''height_above_ground'' = Inr (''height_above_ground'', [7, 4]) \<and>
   get_ground_level (sample_iris [])
     (Some (SampleCube ''t''
        [(''height'', [5, 3]), (''height'', [9]), (''height_above_ground'', [7, 4])])) =
     Inl KeyError"
  by code_simp

text \<open>
  C8, amended. When several coordinate names match the selected prefix (\<open>height\<close>, or
  \<open>pressure\<close> when there is no height coordinate), and every matching coordinate has a
  single-line name whose lookup in the cube gives that coordinate back, the last
  matching coordinate in the order of \<open>cube.coords()\<close> decides: if \<open>d\<close> matches, has at
  least one point, and no coordinate after it matches, then whatever matches come
  before it, the level is chosen from the points of \<open>d\<close> and the returned name is the
  name of \<open>d\<close>.
\<close>

theorem get_ground_level_last_match:
  assumes "cube_coords lib cube = before @ d # after"
    and "prefix lit (coord_name lib d)"
    and "\<forall>d'\<in>set after. \<not> prefix lit (coord_name lib d')"
    and "lit = ''height'' \<or> lit = ''pressure'' \<and> \<not> any_match lib cube ''height''"
    and "names_identify lib cube lit"
    and "coord_points lib d \<noteq> []"
  shows "get_ground_level lib (Some cube) =
           and_then (cube_extract lib cube (coord_name lib d)
                       (if lit = ''height'' then Min (set (coord_points lib d))
                        else Max (set (coord_points lib d))))
             (\<lambda>level. Inr (level, Some (coord_name lib d)))"
proof -
  note m = last_matching_coords [OF assms(1,2,3)]
  have e: "extract_level lib cube lit pick =
           and_then (pick (coord_points lib d)) (\<lambda>v.
           and_then (cube_extract lib cube (coord_name lib d) v) (\<lambda>level.
           Inr (level, Some (coord_name lib d))))" for pick
    using extract_level_last [OF assms(5) m(1)] m(2) by simp
  have a: "any_match lib cube lit" using m(1) by (simp add: any_match_iff)
  from assms(4) show ?thesis
  proof
    assume "lit = ''height''"
    with a e [of py_min] show ?thesis
      by (simp add: get_ground_level_def py_min_Min [OF assms(6)])
  next
    assume "lit = ''pressure'' \<and> \<not> any_match lib cube ''height''"
    with a e [of py_max] show ?thesis
      by (simp add: get_ground_level_def py_max_Max [OF assms(6)])
  qed
qed

text \<open>
  Two height coordinates, \<open>height\<close> and then \<open>height_above_ground\<close>: the second one is used.
\<close>

theorem get_ground_level_last_match_witness:
  "cube_coords (sample_iris []) two_heights_sample =
     [(''height'', [5, 3, 9]), (''pressure'', [1, 2])] @ (''height_above_ground'', [7, 4]) # [] \<and>
   prefix ''height'' (coord_name (sample_iris []) (''height'', [5, 3, 9])) \<and>
   prefix ''height'' (coord_name (sample_iris []) (''height_above_ground'', [7, 4])) \<and>
   names_identify (sample_iris []) two_heights_sample ''height'' \<and>
   get_ground_level (sample_iris []) (Some two_heights_sample) =
     Inr (Some (SampleCube ''t''
                 [(''height'', [5, 3, 9]), (''pressure'', [1, 2]),
                  (''height_above_ground'', [4])]),
          Some ''height_above_ground'')"
proof -
  let ?lib = "sample_iris [] :: (sample_cube, sample_coord, int) iris"
  let ?c = "two_heights_sample"
  let ?d = "(''height_above_ground'', [7, 4 :: int])"
  let ?before = "[(''height'', [5, 3, 9 :: int]), (''pressure'', [1, 2])]"
  have a: "cube_coords ?lib ?c = ?before @ ?d # []"
    by (simp add: sample_iris_def two_heights_sample_def)
  have m: "prefix ''height'' (coord_name ?lib ?d)"
    by (simp add: sample_iris_def)
  have m': "prefix ''height'' (coord_name ?lib (''height'', [5, 3, 9]))"
    by (simp add: sample_iris_def)
  have n: "\<forall>d'\<in>set []. \<not> prefix ''height'' (coord_name ?lib d')"
    by simp
  have l: "''height'' = ''height'' \<or>
           ''height'' = ''pressure'' \<and> \<not> any_match ?lib ?c ''height''"
    by simp
  have b: "names_identify ?lib ?c ''height''"
    by (simp add: names_identify_def matching_coords_def sample_iris_def sample_coord_of_def
        two_heights_sample_def)
  have d: "coord_points ?lib ?d \<noteq> []"
    by (simp add: sample_iris_def)
  have e: "cube_extract ?lib ?c ''height_above_ground'' 4 =
      Inr (Some (SampleCube ''t''
                 [(''height'', [5, 3, 9]), (''pressure'', [1, 2]),
                  (''height_above_ground'', [4])]))"
    by (simp add: sample_iris_def sample_extract_def sample_coord_of_def two_heights_sample_def)
  have "get_ground_level ?lib (Some ?c) =
     Inr (Some (SampleCube ''t''
                 [(''height'', [5, 3, 9]), (''pressure'', [1, 2]),
                  (''height_above_ground'', [4])]),
          Some ''height_above_ground'')"
    using e get_ground_level_last_match [OF a m n l b d] by (simp add: sample_iris_def)
  with a m m' b show ?thesis by simp
qed

text \<open>
  C9. For a cube with no coordinate whose name starts with \<open>height\<close> and none whose name
  starts with \<open>pressure\<close>, the level selector returns the cube itself and no coordinate
  name.
\<close>

theorem get_ground_level_identity:
  assumes "\<forall>d\<in>set (cube_coords lib cube).
             \<not> prefix ''height'' (coord_name lib d) \<and> \<not> prefix ''pressure'' (coord_name lib d)"
  shows "get_ground_level lib (Some cube) = Inr (Some cube, None)"
  using assms by (simp add: get_ground_level_def any_match_iff_ex)

text \<open>A cube with a time and a latitude coordinate only.\<close>

theorem get_ground_level_identity_witness:
  "matching_coords (sample_iris []) surface_sample ''height'' = [] \<and>
   matching_coords (sample_iris []) surface_sample ''pressure'' = [] \<and>
   get_ground_level (sample_iris []) (Some surface_sample) = Inr (Some surface_sample, None)"
proof -
  let ?lib = "sample_iris [] :: (sample_cube, sample_coord, int) iris"
  have a: "\<forall>d\<in>set (cube_coords ?lib surface_sample).
      \<not> prefix ''height'' (coord_name ?lib d) \<and> \<not> prefix ''pressure'' (coord_name ?lib d)"
    by (simp add: sample_iris_def surface_sample_def)
  have "matching_coords ?lib surface_sample ''height'' = []"
       "matching_coords ?lib surface_sample ''pressure'' = []"
    by (simp_all add: matching_coords_def sample_iris_def surface_sample_def)
  then show ?thesis
    using get_ground_level_identity [OF a] by simp
qed

section \<open>The pairing driver: results\<close>

lemma pairs_loop_append:
  "pairs_loop lib param g_files uk_path g_path (pre @ fs) st =
     (case pairs_loop lib param g_files uk_path g_path pre st of
        (p, Inl e) \<Rightarrow> (p, Inl e)
      | (p, Inr (us, gs')) \<Rightarrow>
          pairs_loop lib param g_files uk_path g_path fs \<lparr>uks = us, gs = gs', printed = p\<rparr>)"
proof (induction pre arbitrary: st)
  case Nil
  show ?case by (cases st) simp
next
  case (Cons f pre)
  show ?case
    by (simp add: Cons.IH split: sum.splits prod.splits)
qed

lemma pairs_loop_printed:
  "snd (pairs_loop lib param g_files uk_path g_path fs (st\<lparr>printed := p\<rparr>)) =
   snd (pairs_loop lib param g_files uk_path g_path fs st)"
proof (induction fs arbitrary: st p)
  case Nil
  show ?case by simp
next
  case (Cons f fs)
  have a: "snd (pairs_loop lib param g_files uk_path g_path fs \<lparr>uks = u, gs = g, printed = q\<rparr>) =
        snd (pairs_loop lib param g_files uk_path g_path fs \<lparr>uks = u, gs = g, printed = q'\<rparr>)"
    for u g q q'
    using Cons.IH [where st = "\<lparr>uks = u, gs = g, printed = q'\<rparr>" and p = q] by simp
  have b: "snd (pairs_loop lib param g_files uk_path g_path fs (st\<lparr>printed := q\<rparr>)) =
        snd (pairs_loop lib param g_files uk_path g_path fs st)" for q
    by (rule Cons.IH)
  show ?case
    by (auto simp: b a [of _ _ "p @ _" "printed st @ _"] split: sum.splits prod.splits)
qed

lemma pairs_loop_lengths:
  assumes "pairs_loop lib param g_files uk_path g_path fs st = (out, Inr (us, gs'))"
    and "length (uks st) = length (gs st)"
  shows "length us = length gs'"
  using assms
proof (induction fs arbitrary: st)
  case Nil
  then show ?case by auto
next
  case (Cons f fs)
  from Cons.prems show ?case
    by (auto split: sum.splits prod.splits if_splits dest!: Cons.IH)
qed

lemma pairs_loop_outputs:
  assumes "pairs_loop lib param g_files uk_path g_path fs st = (out, Inr (us, gs'))"
  shows "us = uks st @ map fst (List.map_filter (file_pair lib param g_files uk_path g_path) fs) \<and>
         gs' = gs st @ map snd (List.map_filter (file_pair lib param g_files uk_path g_path) fs)"
  using assms
proof (induction fs arbitrary: st)
  case Nil
  then show ?case by (auto simp: List.map_filter_simps)
next
  case (Cons f fs)
  from Cons.prems show ?case
    by (auto simp: List.map_filter_simps file_pair_def
        split: sum.splits prod.splits if_splits dest!: Cons.IH)
qed


lemma pairs_loop_step_absent:
  assumes "get_info fname = Inr info" and "g_fname info \<notin> set g_files"
  shows "pairs_loop lib param g_files uk_path g_path (fname # rest) st =
         pairs_loop lib param g_files uk_path g_path rest st"
  using assms by simp

lemma pairs_loop_step_caught:
  assumes "get_info fname = Inr info" and "g_fname info \<in> set g_files"
    and "snd (pair_body lib param (g_path @ g_fname info) (uk_path @ fname)) = Inl e"
    and "caught e"
  shows "snd (pairs_loop lib param g_files uk_path g_path (fname # rest) st) =
         snd (pairs_loop lib param g_files uk_path g_path rest st)"
  using assms by (auto simp: pairs_loop_printed split: prod.splits sum.splits)

lemma pairs_loop_step_raised:
  assumes "get_info fname = Inr info" and "g_fname info \<in> set g_files"
    and "snd (pair_body lib param (g_path @ g_fname info) (uk_path @ fname)) = Inl e"
    and "\<not> caught e"
  shows "snd (pairs_loop lib param g_files uk_path g_path (fname # rest) st) = Inl e"
  using assms by (auto split: prod.splits sum.splits)

text \<open>
  C10. Whenever \<open>get_uk_global_pairs\<close> returns, its two lists have the same length: each
  pass of the loop appends to both lists or to neither, so the lists can be zipped into
  pairs at matching positions without loss.
\<close>

theorem pairs_equal_length:
  assumes "get_uk_global_pairs lib param uk_files g_files uk_path g_path = (out, Inr (us, gs'))"
  shows "length us = length gs' \<and> map fst (zip us gs') = us \<and> map snd (zip us gs') = gs'"
proof -
  have "length us = length gs'"
    using assms pairs_loop_lengths [of lib param g_files uk_path g_path uk_files
        "\<lparr>uks = [], gs = [], printed = []\<rparr>" out us gs']
    by (simp add: get_uk_global_pairs_def)
  then show ?thesis by simp
qed

text \<open>Three regional files, two of which yield a pair.\<close>

theorem pairs_equal_length_witness:
  "get_uk_global_pairs (sample_iris sample_files) ''t''
     [uk_name ''06'', uk_name ''09'', uk_name ''12''] sample_g_files ''u/'' ''g/'' =
     ([(''time'', [2]), (''time'', [5])],
      Inr ([paired_uk 2, paired_uk 5], [paired_g 2, paired_g 5])) \<and>
   length [paired_uk 2, paired_uk 5] = length [paired_g 2, paired_g 5]"
proof -
  have a: "get_uk_global_pairs (sample_iris sample_files) ''t''
     [uk_name ''06'', uk_name ''09'', uk_name ''12''] sample_g_files ''u/'' ''g/'' =
     ([(''time'', [2]), (''time'', [5])],
      Inr ([paired_uk 2, paired_uk 5], [paired_g 2, paired_g 5]))"
    by code_simp
  show ?thesis
    using a pairs_equal_length [OF a] by simp
qed

text \<open>
  C3. A regional file name whose computed global name is not in the given collection
  yields no output entry and no error: the run over the input list is the run over the
  list without that name, in what it returns, raises and prints. When the driver
  returns, the two output lists hold the entries of the regional names that yielded a
  pair, in the order of those names in the input.
\<close>

theorem absent_global_file_skipped:
  "(get_info fname = Inr info \<and> g_fname info \<notin> set g_files \<longrightarrow>
      get_uk_global_pairs lib param (pre @ fname # post) g_files uk_path g_path =
      get_uk_global_pairs lib param (pre @ post) g_files uk_path g_path \<and>
      file_pair lib param g_files uk_path g_path fname = None) \<and>
   (get_uk_global_pairs lib param uk_files g_files uk_path g_path = (out, Inr (us, gs')) \<longrightarrow>
      us = map fst (List.map_filter (file_pair lib param g_files uk_path g_path) uk_files) \<and>
      gs' = map snd (List.map_filter (file_pair lib param g_files uk_path g_path) uk_files))"
proof (intro conjI impI)
  assume a: "get_info fname = Inr info \<and> g_fname info \<notin> set g_files"
  then show "file_pair lib param g_files uk_path g_path fname = None"
    by (simp add: file_pair_def)
  have "pairs_loop lib param g_files uk_path g_path (fname # post) st =
        pairs_loop lib param g_files uk_path g_path post st" for st
    using a by (simp add: pairs_loop_step_absent)
  then show "get_uk_global_pairs lib param (pre @ fname # post) g_files uk_path g_path =
      get_uk_global_pairs lib param (pre @ post) g_files uk_path g_path"
    by (simp add: get_uk_global_pairs_def pairs_loop_append [where fs = "fname # post"]
        pairs_loop_append [where fs = post] split: prod.splits sum.splits
        del: pairs_loop.simps)
next
  assume "get_uk_global_pairs lib param uk_files g_files uk_path g_path = (out, Inr (us, gs'))"
  then have "us = [] @ map fst
                (List.map_filter (file_pair lib param g_files uk_path g_path) uk_files) \<and>
             gs' = [] @ map snd
                (List.map_filter (file_pair lib param g_files uk_path g_path) uk_files)"
    using pairs_loop_outputs [of lib param g_files uk_path g_path uk_files
        "\<lparr>uks = [], gs = [], printed = []\<rparr>" out us gs']
    by (simp add: get_uk_global_pairs_def)
  then show "us = map fst
                (List.map_filter (file_pair lib param g_files uk_path g_path) uk_files)"
    and "gs' = map snd
                (List.map_filter (file_pair lib param g_files uk_path g_path) uk_files)"
    by simp_all
qed

text \<open>
  The regional file of run hour 09 has no listed global counterpart: the run is the same
  without it, and the pairs of run hours 06 and 12 come out in that order.
\<close>

theorem absent_global_file_skipped_witness:
  "get_info (uk_name ''09'') = Inr (''20160107'', 9, 0, 3) \<and>
   g_fname (''20160107'', 9, 0, 3) = g_name ''06'' \<and>
   g_name ''06'' \<notin> set sample_g_files \<and>
   get_uk_global_pairs (sample_iris sample_files) ''t''
     [uk_name ''06'', uk_name ''09'', uk_name ''12''] sample_g_files ''u/'' ''g/'' =
   get_uk_global_pairs (sample_iris sample_files) ''t''
     [uk_name ''06'', uk_name ''12''] sample_g_files ''u/'' ''g/'' \<and>
   get_uk_global_pairs (sample_iris sample_files) ''t''
     [uk_name ''06'', uk_name ''09'', uk_name ''12''] sample_g_files ''u/'' ''g/'' =
     ([(''time'', [2]), (''time'', [5])],
      Inr ([paired_uk 2, paired_uk 5], [paired_g 2, paired_g 5])) \<and>
   List.map_filter (file_pair (sample_iris sample_files) ''t'' sample_g_files ''u/'' ''g/'')
     [uk_name ''06'', uk_name ''09'', uk_name ''12''] =
     [(paired_uk 2, paired_g 2), (paired_uk 5, paired_g 5)]"
proof -
  let ?lib = "sample_iris sample_files"
  let ?info = "(''20160107'', 9 :: int, 0 :: int, 3 :: int)"
  have i: "get_info (uk_name ''09'') = Inr ?info" by code_simp
  have n: "g_fname ?info = g_name ''06''" by code_simp
  have m: "g_name ''06'' \<notin> set sample_g_files" by code_simp
  have h: "get_info (uk_name ''09'') = Inr ?info \<and> g_fname ?info \<notin> set sample_g_files"
    using i n m by simp
  have r: "get_uk_global_pairs ?lib ''t''
     [uk_name ''06'', uk_name ''09'', uk_name ''12''] sample_g_files ''u/'' ''g/'' =
     ([(''time'', [2]), (''time'', [5])],
      Inr ([paired_uk 2, paired_uk 5], [paired_g 2, paired_g 5]))"
    by code_simp
  have f: "List.map_filter (file_pair ?lib ''t'' sample_g_files ''u/'' ''g/'')
     [uk_name ''06'', uk_name ''09'', uk_name ''12''] =
     [(paired_uk 2, paired_g 2), (paired_uk 5, paired_g 5)]"
    by code_simp
  have s: "get_uk_global_pairs ?lib ''t'' ([uk_name ''06''] @ uk_name ''09'' # [uk_name ''12''])
      sample_g_files ''u/'' ''g/'' =
      get_uk_global_pairs ?lib ''t'' ([uk_name ''06''] @ [uk_name ''12''])
      sample_g_files ''u/'' ''g/''"
    using h absent_global_file_skipped [where fname = "uk_name ''09''" and info = ?info
        and g_files = sample_g_files and lib = ?lib and param = "''t''"
        and pre = "[uk_name ''06'']" and post = "[uk_name ''12'']"
        and uk_path = "''u/''" and g_path = "''g/''"]
    by blast
  show ?thesis
    using i n m r f s by simp
qed

text \<open>
  C1, as stated, fails in two ways. A parameter that is absent from a loaded collection
  makes \<open>index\<close> raise \<open>ValueError\<close>, which the clause
  \<open>except (IndexError, AttributeError)\<close> does not catch: the driver raises instead of
  skipping the pair. And the clause catches by class, whatever the origin: an
  \<open>AttributeError\<close> raised by \<open>unrotate\<close>, which is neither a parameter lookup nor a level
  extraction, is suppressed too, and both pairs are skipped where the unchanged library
  yields them.
\<close>

theorem guarded_block_counterexample:
  "param_absent (sample_iris sample_files) ''p'' (''g/'' @ g_name ''03'') (''u/'' @ uk_name ''06'') \<and>
   get_uk_global_pairs (sample_iris sample_files) ''p''
     [uk_name ''06'', uk_name ''12''] sample_g_files ''u/'' ''g/'' = ([], Inl ValueError) \<and>
   get_uk_global_pairs (sample_iris sample_files) ''t''
     [uk_name ''06'', uk_name ''12''] sample_g_files ''u/'' ''g/'' =
     ([(''time'', [2]), (''time'', [5])],
      Inr ([paired_uk 2, paired_uk 5], [paired_g 2, paired_g 5])) \<and>
   pair_body (sample_iris_unrotated sample_files) ''t''
     (''g/'' @ g_name ''03'') (''u/'' @ uk_name ''06'') =
     ([(''time'', [2])], Inl AttributeError) \<and>
   get_uk_global_pairs (sample_iris_unrotated sample_files) ''t''
     [uk_name ''06'', uk_name ''12''] sample_g_files ''u/'' ''g/'' =
     ([(''time'', [2]), (''time'', [5])], Inr ([], []))"
  by code_simp

text \<open>
  C1, amended. For a file pair whose global name is listed, an \<open>IndexError\<close> or
  \<open>AttributeError\<close> raised anywhere in the guarded block (loading, lookup, narrowing to
  the last time, level selection, reprojection, cropping) is caught: the driver returns
  or raises what it would without that file name, so the pair is skipped and the loop
  continues. A level selection on \<open>None\<close>, the result of an extraction that matched
  nothing, raises \<open>AttributeError\<close> and is such a case. A failure of any other class
  leaves the function, once the earlier files have been processed; nothing is stated
  here for the case where the parameter is absent from a loaded collection.
\<close>

theorem guarded_block_failures:
  assumes "get_info fname = Inr info" and "g_fname info \<in> set g_files"
    and "snd (pair_body lib param (g_path @ g_fname info) (uk_path @ fname)) = Inl e"
  shows "(e = IndexError \<or> e = AttributeError \<longrightarrow>
            snd (get_uk_global_pairs lib param (pre @ fname # post) g_files uk_path g_path) =
            snd (get_uk_global_pairs lib param (pre @ post) g_files uk_path g_path)) \<and>
         (e \<noteq> IndexError \<and> e \<noteq> AttributeError \<and>
          \<not> param_absent lib param (g_path @ g_fname info) (uk_path @ fname) \<and>
          (\<exists>r. snd (get_uk_global_pairs lib param pre g_files uk_path g_path) = Inr r) \<longrightarrow>
            snd (get_uk_global_pairs lib param (pre @ fname # post) g_files uk_path g_path) =
            Inl e) \<and>
         get_ground_level lib None = Inl AttributeError"
proof (intro conjI impI)
  show "get_ground_level lib None = Inl AttributeError"
    by (simp add: get_ground_level_def)
next
  assume "e = IndexError \<or> e = AttributeError"
  then have c: "caught e" by (simp add: caught_def)
  show "snd (get_uk_global_pairs lib param (pre @ fname # post) g_files uk_path g_path) =
        snd (get_uk_global_pairs lib param (pre @ post) g_files uk_path g_path)"
    by (simp add: get_uk_global_pairs_def pairs_loop_append [where fs = "fname # post"]
        pairs_loop_append [where fs = post] pairs_loop_step_caught [OF assms c]
        split: prod.splits sum.splits del: pairs_loop.simps)
next
  assume a: "e \<noteq> IndexError \<and> e \<noteq> AttributeError \<and>
          \<not> param_absent lib param (g_path @ g_fname info) (uk_path @ fname) \<and>
          (\<exists>r. snd (get_uk_global_pairs lib param pre g_files uk_path g_path) = Inr r)"
  then have c: "\<not> caught e" by (simp add: caught_def)
  from a obtain p r where
    "pairs_loop lib param g_files uk_path g_path pre \<lparr>uks = [], gs = [], printed = []\<rparr> =
       (p, Inr r)"
    by (auto simp: get_uk_global_pairs_def snd_def split: prod.splits)
  then show "snd (get_uk_global_pairs lib param (pre @ fname # post) g_files uk_path g_path) =
        Inl e"
    by (simp add: get_uk_global_pairs_def pairs_loop_append [where fs = "fname # post"]
        pairs_loop_step_raised [OF assms c] split: prod.splits del: pairs_loop.simps)
qed

text \<open>
  The global cube for run hour 18 lacks the regional time, and that pair is skipped; the
  global file for run hour 21 cannot be loaded, and that failure leaves the function.
\<close>

theorem guarded_block_failures_witness:
  "get_info (uk_name ''18'') = Inr (''20160107'', 18, 0, 3) \<and>
   g_fname (''20160107'', 18, 0, 3) \<in> set sample_g_files \<and>
   snd (pair_body (sample_iris sample_files) ''t''
          (''g/'' @ g_fname (''20160107'', 18, 0, 3)) (''u/'' @ uk_name ''18'')) =
     Inl AttributeError \<and>
   snd (get_uk_global_pairs (sample_iris sample_files) ''t''
          [uk_name ''06'', uk_name ''18'', uk_name ''12''] sample_g_files ''u/'' ''g/'') =
     Inr ([paired_uk 2, paired_uk 5], [paired_g 2, paired_g 5]) \<and>
   get_info (uk_name ''21'') = Inr (''20160107'', 21, 0, 3) \<and>
   g_fname (''20160107'', 21, 0, 3) \<in> set sample_g_files \<and>
   snd (pair_body (sample_iris sample_files) ''t''
          (''g/'' @ g_fname (''20160107'', 21, 0, 3)) (''u/'' @ uk_name ''21'')) =
     Inl (OtherError ''OSError'') \<and>
   \<not> param_absent (sample_iris sample_files) ''t''
          (''g/'' @ g_fname (''20160107'', 21, 0, 3)) (''u/'' @ uk_name ''21'') \<and>
   snd (get_uk_global_pairs (sample_iris sample_files) ''t''
          [uk_name ''06'', uk_name ''21'', uk_name ''12''] sample_g_files ''u/'' ''g/'') =
     Inl (OtherError ''OSError'')"
proof -
  let ?lib = "sample_iris sample_files"
  let ?i18 = "(''20160107'', 18 :: int, 0 :: int, 3 :: int)"
  let ?i21 = "(''20160107'', 21 :: int, 0 :: int, 3 :: int)"
  have a1: "get_info (uk_name ''18'') = Inr ?i18" by code_simp
  have a2: "g_fname ?i18 \<in> set sample_g_files" by code_simp
  have a3: "snd (pair_body ?lib ''t'' (''g/'' @ g_fname ?i18) (''u/'' @ uk_name ''18'')) =
      Inl AttributeError" by code_simp
  have b1: "get_info (uk_name ''21'') = Inr ?i21" by code_simp
  have b2: "g_fname ?i21 \<in> set sample_g_files" by code_simp
  have b3: "snd (pair_body ?lib ''t'' (''g/'' @ g_fname ?i21) (''u/'' @ uk_name ''21'')) =
      Inl (OtherError ''OSError'')" by code_simp
  have b4: "\<not> param_absent ?lib ''t'' (''g/'' @ g_fname ?i21) (''u/'' @ uk_name ''21'')"
    by code_simp
  have r: "snd (get_uk_global_pairs ?lib ''t'' ([uk_name ''06''] @ [uk_name ''12''])
      sample_g_files ''u/'' ''g/'') = Inr ([paired_uk 2, paired_uk 5], [paired_g 2, paired_g 5])"
    by code_simp
  have "snd (get_uk_global_pairs ?lib ''t'' [uk_name ''06''] sample_g_files
      ''u/'' ''g/'') = Inr ([paired_uk 2], [paired_g 2])"
    by code_simp
  then have p: "\<exists>r. snd (get_uk_global_pairs ?lib ''t'' [uk_name ''06''] sample_g_files
      ''u/'' ''g/'') = Inr r"
    by blast
  have c1: "snd (get_uk_global_pairs ?lib ''t'' ([uk_name ''06''] @ uk_name ''18'' # [uk_name ''12''])
      sample_g_files ''u/'' ''g/'') =
      snd (get_uk_global_pairs ?lib ''t'' ([uk_name ''06''] @ [uk_name ''12''])
      sample_g_files ''u/'' ''g/'')"
    using guarded_block_failures [OF a1 a2 a3, where pre = "[uk_name ''06'']"
        and post = "[uk_name ''12'']"]
    by blast
  have c2: "snd (get_uk_global_pairs ?lib ''t'' ([uk_name ''06''] @ uk_name ''21'' # [uk_name ''12''])
      sample_g_files ''u/'' ''g/'') = Inl (OtherError ''OSError'')"
    using b4 p guarded_block_failures [OF b1 b2 b3, where pre = "[uk_name ''06'']"
        and post = "[uk_name ''12'']"]
    by blast
  show ?thesis
    using a1 a2 a3 b1 b2 b3 b4 c1 c2 r by simp
qed

end
